theory Spec2Isabelle
  imports Main "HOL-Library.Word" "HOL-Library.Sublist"
begin

section \<open>The retrace API of the REST server (cmd/restapi/apis/retrace\_tx\_api.go)\<close>

text \<open>
  \<open>Retrace\<close> replays one historical block against a remote key-value store and
  reports the keys that the replay read and wrote. The file under verification holds four
  functions: \<open>Retrace\<close>, \<open>runBlock\<close>, \<open>GetBlockByNumber\<close> and
  \<open>ReadChainConfig\<close>. Each one is translated below, statement by statement.
  Everything they call in other packages (the EVM, the consensus engine, the overlay, the
  store, the JSON decoder) is taken as a parameter, collected in the record
  \<open>Externals\<close>; Go objects that those calls mutate through pointers are passed in and
  returned.
\<close>

subsection \<open>Data\<close>

type_synonym bytes = "8 word list"

text \<open>\<open>params.ChainConfig\<close>: the two fields that the file reads. \<open>DAOForkBlock\<close> is a
  \<open>*big.Int\<close>, \<open>None\<close> is the nil pointer.\<close>

record ChainConfig =
  DAOForkSupport :: bool
  DAOForkBlock :: "int option"

text \<open>The zero value \<open>var config params.ChainConfig\<close>.\<close>

definition ChainConfig_zero :: ChainConfig where
  "ChainConfig_zero = \<lparr>DAOForkSupport = False, DAOForkBlock = None\<rparr>"

text \<open>\<open>types.Header\<close> and \<open>types.Block\<close>, with what \<open>runBlock\<close> asks of them.\<close>

record Header =
  Number :: nat
  GasLimit :: "64 word"

record 'tx Block =
  Header :: Header
  Transactions :: "'tx list"
  Uncles :: "Header list"

definition NumberU64 :: "'tx Block \<Rightarrow> 64 word" where
  "NumberU64 block = of_nat (Number (Header block))"

text \<open>A change set as \<open>Retrace\<close> reads it: \<open>accountChanges.Changes\<close>, \<open>ch.Key\<close>.\<close>

record Change =
  Key :: bytes
  Value :: bytes

record ChangeSet =
  Changes :: "Change list"

record WritesReads =
  Reads :: "string list"
  Writes :: "string list"

record RetraceResponse =
  Storage :: WritesReads
  Account :: WritesReads

text \<open>The zero value \<open>RetraceResponse{}\<close>: nil slices everywhere.\<close>

definition RetraceResponse_zero :: RetraceResponse where
  "RetraceResponse_zero =
     \<lparr>Storage = \<lparr>Reads = [], Writes = []\<rparr>, Account = \<lparr>Reads = [], Writes = []\<rparr>\<rparr>"

subsection \<open>Errors and panics\<close>

datatype NumErr = ErrSyntax | ErrRange

text \<open>
  The errors \<open>Retrace\<close> can return. \<open>NumError\<close> is the \<open>*strconv.NumError\<close> of
  \<open>Atoi\<close> (with the offending string); \<open>StoreError\<close> is whatever the block lookup returned;
  the last three are the \<open>fmt.Errorf\<close> values of \<open>runBlock\<close>:
  \<open>"tx %x failed: %v"\<close> with the transaction's hash, \<open>"finalize of block %d failed: %v"\<close> and
  \<open>"commiting block %d failed: %v"\<close> with \<open>block.NumberU64()\<close>. The cause is the text of the
  wrapped error.
\<close>

datatype error =
    NumError string NumErr
  | StoreError string
  | TxFailed bytes string
  | FinalizeFailed "64 word" string
  | CommitFailed "64 word" string

text \<open>A Go call either returns or panics (here: a nil pointer dereference).\<close>

datatype 'a go = Returns 'a | Panics

subsection \<open>Standard library: strconv.Atoi\<close>

text \<open>
  \<open>strconv.Atoi(s)\<close> is \<open>ParseInt(s, 10, 0)\<close> on a 64-bit platform: an optional sign
  \<open>+\<close> or \<open>-\<close>, then one or more decimal digits. The digits are accumulated from the left
  in a \<open>uint64\<close>; the first character that is not a digit is a syntax error, a value that
  leaves \<open>uint64\<close> is a range error. The signed result must lie in \<open>-2^63 .. 2^63 - 1\<close>.
\<close>

definition isDigit :: "char \<Rightarrow> bool" where
  "isDigit c = (48 \<le> (of_char c :: nat) \<and> (of_char c :: nat) \<le> 57)"

fun parseDigits :: "nat \<Rightarrow> string \<Rightarrow> NumErr + nat" where
  "parseDigits n [] = Inr n"
| "parseDigits n (c # cs) =
     (if \<not> isDigit c then Inl ErrSyntax
      else if 2 ^ 64 \<le> n * 10 + (of_char c - 48) then Inl ErrRange
      else parseDigits (n * 10 + (of_char c - 48)) cs)"

definition Atoi :: "string \<Rightarrow> error + int" where
  "Atoi s =
     (let neg = (s \<noteq> [] \<and> hd s = CHR ''-'');
          ds = (if s \<noteq> [] \<and> (hd s = CHR ''+'' \<or> hd s = CHR ''-'') then tl s else s)
      in if ds = [] then Inl (NumError s ErrSyntax)
         else case parseDigits 0 ds of
                Inl e \<Rightarrow> Inl (NumError s e)
              | Inr un \<Rightarrow>
                  if \<not> neg \<and> 2 ^ 63 \<le> un then Inl (NumError s ErrRange)
                  else if neg \<and> 2 ^ 63 < un then Inl (NumError s ErrRange)
                  else Inr (if neg then - int un else int un))"

subsection \<open>common.Bytes2Hex\<close>

text \<open>
  Modelled from the spec: \<open>common.Bytes2Hex\<close> is in package \<open>common\<close>, which is not among
  the sources. The spec (section 6): a \<open>hexString\<close> is the lowercase hexadecimal encoding of
  a raw key byte sequence, no \<open>0x\<close> prefix. Two digits per byte, high nibble first.
\<close>

definition hextable :: string where
  "hextable = ''0123456789abcdef''"

definition Bytes2Hex :: "bytes \<Rightarrow> string" where
  "Bytes2Hex d = concat (map (\<lambda>b. [hextable ! (unat b div 16), hextable ! (unat b mod 16)]) d)"

subsection \<open>The collaborators\<close>

text \<open>
  What the file calls in other packages. The type variables stand for the Go types whose
  insides the file never looks at:
  \<open>'ibs\<close> the overlay \<open>*state.IntraBlockState\<close> together with the remote reader it
  wraps (the reader logs every key it serves, and \<open>Retrace\<close> keeps a pointer to it),
  \<open>'wr\<close> a \<open>state.StateWriter\<close>, \<open>'tx\<close> a transaction, \<open>'rc\<close> a receipt,
  \<open>'db\<close> the \<open>ethdb.KV\<close> store, \<open>'txn\<close> a read-only \<open>ethdb.Tx\<close>,
  \<open>'cc\<close> the \<open>core.ChainContext\<close> and \<open>'ctx\<close> a \<open>context.Context\<close>.
  A \<open>string option\<close> is a Go \<open>error\<close> (\<open>None\<close> is nil, \<open>Some\<close> carries the
  message).

  \<^item> \<open>View_begin\<close>: \<open>db.View(ctx, f)\<close> opens a read-only transaction and runs \<open>f\<close> on
    it, returning \<open>f\<close>'s error; \<open>Inl\<close> when the transaction cannot be opened, and then
    \<open>f\<close> is not run.
  \<^item> \<open>Bucket_Get\<close>: \<open>tx.Bucket(name).Get(k)\<close>, a value and an error.
  \<^item> \<open>json_Unmarshal\<close>: \<open>json.Unmarshal(data, &config)\<close> writes into \<open>config\<close> and
    returns an error.
  \<^item> \<open>remotechain_GetBlockByNumber\<close> returns a \<open>*types.Block\<close> (\<open>None\<close> is nil) and an
    error.
  \<^item> \<open>NewIntraBlockState\<close>: \<open>state.New(NewRemoteReader(remoteDB, bn))\<close>.
  \<^item> \<open>GetAccountChanges\<close> and \<open>GetStorageChanges\<close>: the accessors of the writer; each
    returns a pointer to a change set (\<open>None\<close> is nil) and an error. \<open>Retrace\<close> reads
    the field \<open>Changes\<close> through the pointer.
  \<^item> \<open>ApplyTransaction\<close> mutates the gas pool, the overlay, the writer it is given and the
    used-gas counter, in this order in the tuple.
  \<^item> \<open>FinalizeAndAssemble\<close> (of \<open>ethash.NewFullFaker()\<close>) mutates the overlay; the block
    it assembles is dropped by \<open>runBlock\<close>.
  \<^item> \<open>CommitBlock\<close> mutates the overlay and the writer it is given.
\<close>

record ('ibs, 'wr, 'tx, 'rc, 'db, 'txn, 'cc, 'ctx) Externals =
  MainnetGenesisHash :: bytes
  RopstenGenesisHash :: bytes
  RinkebyGenesisHash :: bytes
  GoerliGenesisHash :: bytes
  ConfigPrefix :: bytes
  View_begin :: "'db \<Rightarrow> string + 'txn"
  Bucket_Get :: "'txn \<Rightarrow> bytes \<Rightarrow> bytes \<Rightarrow> bytes \<times> string option"
  json_Unmarshal :: "bytes \<Rightarrow> ChainConfig \<Rightarrow> string option \<times> ChainConfig"
  remotechain_GetBlockByNumber :: "'txn \<Rightarrow> 64 word \<Rightarrow> 'tx Block option \<times> string option"
  NewRemoteContext :: "'db \<Rightarrow> 'cc"
  NewIntraBlockState :: "'db \<Rightarrow> 64 word \<Rightarrow> 'ibs"
  NewNoopWriter :: 'wr
  NewChangeSetWriter :: 'wr
  GetAccountChanges :: "'wr \<Rightarrow> ChangeSet option \<times> string option"
  GetStorageChanges :: "'wr \<Rightarrow> ChangeSet option \<times> string option"
  GetAccountReads :: "'ibs \<Rightarrow> bytes list"
  GetStorageReads :: "'ibs \<Rightarrow> bytes list"
  TxHash :: "'tx \<Rightarrow> bytes"
  ApplyDAOHardFork :: "'ibs \<Rightarrow> 'ibs"
  ApplyTransaction :: "ChainConfig \<Rightarrow> 'cc \<Rightarrow> Header \<Rightarrow> 'tx
     \<Rightarrow> 64 word \<times> 'ibs \<times> 'wr \<times> 64 word
     \<Rightarrow> (string + 'rc) \<times> (64 word \<times> 'ibs \<times> 'wr \<times> 64 word)"
  FinalizeAndAssemble :: "ChainConfig \<Rightarrow> Header \<Rightarrow> 'tx list \<Rightarrow> Header list \<Rightarrow> 'rc list
     \<Rightarrow> 'ibs \<Rightarrow> string option \<times> 'ibs"
  WithEIPsFlags :: "ChainConfig \<Rightarrow> nat \<Rightarrow> 'ctx"
  CommitBlock :: "'ctx \<Rightarrow> 'ibs \<Rightarrow> 'wr \<Rightarrow> string option \<times> 'ibs \<times> 'wr"

subsection \<open>ReadChainConfig\<close>

text \<open>
  The function has three statements and no error result. The \<open>switch\<close> picks the key and
  leaves \<open>k\<close> nil for any other chain name (\<open>genesisKey\<close>). The \<open>View\<close> closure stores
  what \<open>Get\<close> returned in \<open>data\<close>; the error of \<open>Get\<close> and the error of \<open>View\<close> go to
  \<open>_\<close>, and \<open>data\<close> stays nil when the closure never ran (\<open>readConfigData\<close>). Then
  \<open>json.Unmarshal\<close> decodes \<open>data\<close> into the zero-valued \<open>config\<close>, its error goes to
  \<open>_\<close>, and \<open>&config\<close> is returned.
\<close>

definition genesisKey ::
  "('ibs, 'wr, 'tx, 'rc, 'db, 'txn, 'cc, 'ctx) Externals \<Rightarrow> string \<Rightarrow> bytes" where
  "genesisKey X chain =
     (if chain = ''mainnet'' then MainnetGenesisHash X
      else if chain = ''testnet'' then RopstenGenesisHash X
      else if chain = ''rinkeby'' then RinkebyGenesisHash X
      else if chain = ''goerli'' then GoerliGenesisHash X
      else [])"

definition readConfigData ::
  "('ibs, 'wr, 'tx, 'rc, 'db, 'txn, 'cc, 'ctx) Externals \<Rightarrow> 'db \<Rightarrow> bytes \<Rightarrow> bytes" where
  "readConfigData X db k =
     (case View_begin X db of
        Inl _ \<Rightarrow> []
      | Inr tx \<Rightarrow> fst (Bucket_Get X tx (ConfigPrefix X) k))"

definition ReadChainConfig ::
  "('ibs, 'wr, 'tx, 'rc, 'db, 'txn, 'cc, 'ctx) Externals \<Rightarrow> 'db \<Rightarrow> string \<Rightarrow> ChainConfig" where
  "ReadChainConfig X db chain =
     (let k = genesisKey X chain;
          data = readConfigData X db k;
          config = snd (json_Unmarshal X data ChainConfig_zero)
      in config)"

subsection \<open>GetBlockByNumber\<close>

definition GetBlockByNumber ::
  "('ibs, 'wr, 'tx, 'rc, 'db, 'txn, 'cc, 'ctx) Externals \<Rightarrow> 'db \<Rightarrow> 64 word
     \<Rightarrow> 'tx Block option \<times> string option" where
  "GetBlockByNumber X db number =
     (case View_begin X db of
        Inl err \<Rightarrow> (None, Some err)
      | Inr tx \<Rightarrow>
          (case remotechain_GetBlockByNumber X tx number of
             (b, Some err) \<Rightarrow> (None, Some err)
           | (b, None) \<Rightarrow> (b, None)))"

subsection \<open>runBlock\<close>

text \<open>The guard of the DAO hard fork, with Go's short-circuit \<open>&&\<close>:
  \<open>chainConfig.DAOForkSupport && chainConfig.DAOForkBlock != nil &&
  chainConfig.DAOForkBlock.Cmp(block.Number()) == 0\<close>.\<close>

definition daoForkDue :: "ChainConfig \<Rightarrow> 'tx Block \<Rightarrow> bool" where
  "daoForkDue chainConfig block =
     (DAOForkSupport chainConfig \<and>
      (case DAOForkBlock chainConfig of
         None \<Rightarrow> False
       | Some d \<Rightarrow> d = int (Number (Header block))))"

text \<open>
  The loop \<open>for _, tx := range block.Transactions()\<close>: the transactions still to run, the
  receipts appended so far and the objects \<open>ApplyTransaction\<close> mutates. The first error
  leaves the loop and the function.
\<close>

fun applyTransactions ::
  "('ibs, 'wr, 'tx, 'rc, 'db, 'txn, 'cc, 'ctx) Externals \<Rightarrow> ChainConfig \<Rightarrow> 'cc \<Rightarrow> Header
     \<Rightarrow> 'tx list \<Rightarrow> 'rc list \<Rightarrow> 64 word \<times> 'ibs \<times> 'wr \<times> 64 word
     \<Rightarrow> (error + 'rc list) \<times> (64 word \<times> 'ibs \<times> 'wr \<times> 64 word)" where
  "applyTransactions X chainConfig bcb header [] receipts st = (Inr receipts, st)"
| "applyTransactions X chainConfig bcb header (tx # txs) receipts st =
     (case ApplyTransaction X chainConfig bcb header tx st of
        (Inl err, st') \<Rightarrow> (Inl (TxFailed (TxHash X tx) err), st')
      | (Inr receipt, st') \<Rightarrow>
          applyTransactions X chainConfig bcb header txs (receipts @ [receipt]) st')"

text \<open>
  \<open>runBlock\<close> returns an error; the model also returns the three objects it was handed by
  pointer, as the call leaves them. The gas pool starts at \<open>0 + block.GasLimit()\<close>, the
  used-gas counter at \<open>0\<close>. The header is the copy that \<open>block.Header()\<close> makes; the
  collaborators get it by pointer and are taken to leave its number as it is, which is all
  that \<open>runBlock\<close> reads of it afterwards.
\<close>

definition runBlock ::
  "('ibs, 'wr, 'tx, 'rc, 'db, 'txn, 'cc, 'ctx) Externals \<Rightarrow> 'ibs \<Rightarrow> 'wr \<Rightarrow> 'wr \<Rightarrow> ChainConfig
     \<Rightarrow> 'cc \<Rightarrow> 'tx Block \<Rightarrow> error option \<times> 'ibs \<times> 'wr \<times> 'wr" where
  "runBlock X ibs txnWriter blockWriter chainConfig bcb block =
     (let header = Header block;
          gp = 0 + GasLimit header;
          usedGas = 0;
          ibs1 = (if daoForkDue chainConfig block then ApplyDAOHardFork X ibs else ibs)
      in case applyTransactions X chainConfig bcb header (Transactions block) []
                (gp, ibs1, txnWriter, usedGas) of
           (Inl err, (gp', ibs2, txnWriter', usedGas')) \<Rightarrow>
             (Some err, ibs2, txnWriter', blockWriter)
         | (Inr receipts, (gp', ibs2, txnWriter', usedGas')) \<Rightarrow>
             (case FinalizeAndAssemble X chainConfig header (Transactions block) (Uncles block)
                     receipts ibs2 of
                (Some err, ibs3) \<Rightarrow>
                  (Some (FinalizeFailed (NumberU64 block) err), ibs3, txnWriter', blockWriter)
              | (None, ibs3) \<Rightarrow>
                  (let ctx = WithEIPsFlags X chainConfig (Number header)
                   in case CommitBlock X ctx ibs3 blockWriter of
                        (Some err, ibs4, blockWriter') \<Rightarrow>
                          (Some (CommitFailed (NumberU64 block) err), ibs4, txnWriter', blockWriter')
                      | (None, ibs4, blockWriter') \<Rightarrow>
                          (None, ibs4, txnWriter', blockWriter'))))"

subsection \<open>Retrace\<close>

text \<open>
  Line by line. \<open>uint64(bn)\<close> converts the signed \<open>int\<close> by wrapping. The lookup may
  hand back a nil block with a nil error; \<open>runBlock\<close> starts with \<open>block.Header()\<close>, which
  dereferences it, so that case panics. After \<open>runBlock\<close> the variable \<open>err\<close> is nil; the
  error of \<open>GetAccountChanges\<close> goes to \<open>_\<close>, and the \<open>if err != nil\<close> that follows tests
  \<open>err\<close> again. The error of \<open>GetStorageChanges\<close> goes to \<open>_\<close> as well. Neither
  change set is tested for nil: \<open>range accountChanges.Changes\<close> (line 72) and
  \<open>range storageChanges.Changes\<close> (line 80) read the field through the pointer, so a
  nil change set panics there, the account one before \<open>GetStorageChanges\<close> is called.
\<close>

definition Retrace ::
  "('ibs, 'wr, 'tx, 'rc, 'db, 'txn, 'cc, 'ctx) Externals \<Rightarrow> string \<Rightarrow> string \<Rightarrow> 'db
     \<Rightarrow> (RetraceResponse \<times> error option) go" where
  "Retrace X blockNumber chain remoteDB =
     (let chainConfig = ReadChainConfig X remoteDB chain;
          noOpWriter = NewNoopWriter X
      in case Atoi blockNumber of
           Inl err \<Rightarrow> Returns (RetraceResponse_zero, Some err)
         | Inr bn \<Rightarrow>
             (let (block, lookupErr) = GetBlockByNumber X remoteDB (word_of_int bn);
                  chainCtx = NewRemoteContext X remoteDB
              in case lookupErr of
                   Some e \<Rightarrow> Returns (RetraceResponse_zero, Some (StoreError e))
                 | None \<Rightarrow>
                     (case block of
                        None \<Rightarrow> Panics
                      | Some blk \<Rightarrow>
                          (let writer = NewChangeSetWriter X;
                               intraBlockState = NewIntraBlockState X remoteDB (word_of_int bn);
                               (err, ibs', noOpWriter', writer') =
                                  runBlock X intraBlockState noOpWriter writer chainConfig chainCtx blk
                           in if err \<noteq> None then Returns (RetraceResponse_zero, err)
                              else
                                (let (accountChanges, _) = GetAccountChanges X writer'
                                 in if err \<noteq> None then Returns (RetraceResponse_zero, err)
                                    else
                                      (case accountChanges of
                                         None \<Rightarrow> Panics
                                       | Some ac \<Rightarrow>
                                           (let accountWrites =
                                                  map (\<lambda>ch. Bytes2Hex (Key ch)) (Changes ac);
                                                accountReads = map Bytes2Hex (GetAccountReads X ibs');
                                                (storageChanges, _) = GetStorageChanges X writer'
                                            in case storageChanges of
                                                 None \<Rightarrow> Panics
                                               | Some sc \<Rightarrow>
                                                   (let storageWrites =
                                                          map (\<lambda>ch. Bytes2Hex (Key ch)) (Changes sc);
                                                        storageReads =
                                                          map Bytes2Hex (GetStorageReads X ibs')
                                                    in Returns
                                                         (\<lparr>Storage = \<lparr>Reads = storageReads,
                                                                      Writes = storageWrites\<rparr>,
                                                           Account = \<lparr>Reads = accountReads,
                                                                      Writes = accountWrites\<rparr>\<rparr>,
                                                          None)))))))))"

subsection \<open>Observing the calls\<close>

text \<open>
  To state in which order \<open>runBlock\<close> calls its collaborators, the collaborators are
  wrapped: \<open>spy X\<close> behaves as \<open>X\<close> and keeps, next to the overlay, the list of the calls
  made so far. Each entry holds what the call was given and what it answered:
  the transaction and the receipt or error of \<open>ApplyTransaction\<close>, the transactions,
  receipts and error of \<open>FinalizeAndAssemble\<close>, the writer and error of \<open>CommitBlock\<close>.
  The functions of the file are not touched: the same \<open>runBlock\<close> runs on \<open>spy X\<close>.
\<close>

datatype ('tx, 'rc, 'wr) call =
    CallDAO
  | CallApply 'tx "string + 'rc"
  | CallFinalize "'tx list" "'rc list" "string option"
  | CallCommit 'wr "string option"

definition spy ::
  "('ibs, 'wr, 'tx, 'rc, 'db, 'txn, 'cc, 'ctx) Externals
     \<Rightarrow> ('ibs \<times> ('tx, 'rc, 'wr) call list, 'wr, 'tx, 'rc, 'db, 'txn, 'cc, 'ctx) Externals" where
  "spy X =
     \<lparr>MainnetGenesisHash = MainnetGenesisHash X,
      RopstenGenesisHash = RopstenGenesisHash X,
      RinkebyGenesisHash = RinkebyGenesisHash X,
      GoerliGenesisHash = GoerliGenesisHash X,
      ConfigPrefix = ConfigPrefix X,
      View_begin = View_begin X,
      Bucket_Get = Bucket_Get X,
      json_Unmarshal = json_Unmarshal X,
      remotechain_GetBlockByNumber = remotechain_GetBlockByNumber X,
      NewRemoteContext = NewRemoteContext X,
      NewIntraBlockState = (\<lambda>db n. (NewIntraBlockState X db n, [])),
      NewNoopWriter = NewNoopWriter X,
      NewChangeSetWriter = NewChangeSetWriter X,
      GetAccountChanges = GetAccountChanges X,
      GetStorageChanges = GetStorageChanges X,
      GetAccountReads = (\<lambda>(ibs, calls). GetAccountReads X ibs),
      GetStorageReads = (\<lambda>(ibs, calls). GetStorageReads X ibs),
      TxHash = TxHash X,
      ApplyDAOHardFork = (\<lambda>(ibs, calls). (ApplyDAOHardFork X ibs, calls @ [CallDAO])),
      ApplyTransaction = (\<lambda>chainConfig bcb header tx (gp, (ibs, calls), w, usedGas).
         case ApplyTransaction X chainConfig bcb header tx (gp, ibs, w, usedGas) of
           (r, (gp', ibs', w', usedGas')) \<Rightarrow>
             (r, (gp', (ibs', calls @ [CallApply tx r]), w', usedGas'))),
      FinalizeAndAssemble = (\<lambda>chainConfig header txs uncles receipts (ibs, calls).
         case FinalizeAndAssemble X chainConfig header txs uncles receipts ibs of
           (err, ibs') \<Rightarrow> (err, (ibs', calls @ [CallFinalize txs receipts err]))),
      WithEIPsFlags = WithEIPsFlags X,
      CommitBlock = (\<lambda>ctx (ibs, calls) w.
         case CommitBlock X ctx ibs w of
           (err, ibs', w') \<Rightarrow> (err, (ibs', calls @ [CallCommit w err]), w'))\<rparr>"

text \<open>
  The phases of the orchestrator as the spec names them (section 4.5):
  \<open>Init \<rightarrow> (optional) OneTimeProtocolTransition \<rightarrow> ApplyTx(0..n-1) \<rightarrow> Finalize \<rightarrow> Commit\<close>.
  \<open>schedule\<close> is the full sequence for a block; \<open>phase_of\<close> reads the phase off a call.
\<close>

datatype 'tx phase = OneTimeProtocolTransition | ApplyTx 'tx | Finalize | Commit

fun phase_of :: "('tx, 'rc, 'wr) call \<Rightarrow> 'tx phase" where
  "phase_of CallDAO = OneTimeProtocolTransition"
| "phase_of (CallApply tx r) = ApplyTx tx"
| "phase_of (CallFinalize txs receipts err) = Finalize"
| "phase_of (CallCommit w err) = Commit"

definition schedule :: "ChainConfig \<Rightarrow> 'tx Block \<Rightarrow> 'tx phase list" where
  "schedule chainConfig block =
     (if daoForkDue chainConfig block then [OneTimeProtocolTransition] else [])
       @ map ApplyTx (Transactions block) @ [Finalize, Commit]"

text \<open>The calls of one \<open>runBlock\<close>, started on an overlay with an empty list.\<close>

definition calls_of ::
  "('ibs, 'wr, 'tx, 'rc, 'db, 'txn, 'cc, 'ctx) Externals \<Rightarrow> 'ibs \<Rightarrow> 'wr \<Rightarrow> 'wr \<Rightarrow> ChainConfig
     \<Rightarrow> 'cc \<Rightarrow> 'tx Block \<Rightarrow> ('tx, 'rc, 'wr) call list" where
  "calls_of X ibs txnWriter blockWriter chainConfig bcb block =
     snd (fst (snd (runBlock (spy X) (ibs, []) txnWriter blockWriter chainConfig bcb block)))"

text \<open>The calls that \<open>runBlock\<close> can make before the loop, and the calls of the loop for
  the transactions that were accepted, with their receipts.\<close>

definition dao_calls :: "ChainConfig \<Rightarrow> 'tx Block \<Rightarrow> ('tx, 'rc, 'wr) call list" where
  "dao_calls chainConfig block = (if daoForkDue chainConfig block then [CallDAO] else [])"

definition applied :: "'tx list \<Rightarrow> 'rc list \<Rightarrow> ('tx, 'rc, 'wr) call list" where
  "applied txs receipts = map (\<lambda>(tx, r). CallApply tx (Inr r)) (zip txs receipts)"

subsection \<open>The change-set recorder\<close>

text \<open>
  Modelled from the spec: \<open>state.ChangeSetWriter\<close> (\<open>state.NewChangeSetWriter()\<close>, its
  \<open>StateWriter\<close> methods and its two accessors) is in package \<open>core/state\<close>, which is
  not among the sources. The spec (section 4.3): the recorder accepts account mutation
  notifications (key, new value) and storage mutation notifications (key, new value) and
  appends each first-seen key to an ordered log, updating the stored value on repeated
  writes to the same key without reordering. It exposes two accessors, the account change
  set and the storage change set, each an ordered sequence of (key, value) pairs. It never
  fails.
\<close>

datatype mutation = AccountMutation bytes bytes | StorageMutation bytes bytes

record ChangeSetWriter =
  accountLog :: "Change list"
  storageLog :: "Change list"

definition ChangeSetWriter_new :: ChangeSetWriter where
  "ChangeSetWriter_new = \<lparr>accountLog = [], storageLog = []\<rparr>"

fun upsert :: "bytes \<Rightarrow> bytes \<Rightarrow> Change list \<Rightarrow> Change list" where
  "upsert k v [] = [\<lparr>Key = k, Value = v\<rparr>]"
| "upsert k v (c # cs) = (if Key c = k then c\<lparr>Value := v\<rparr> # cs else c # upsert k v cs)"

fun notify :: "ChangeSetWriter \<Rightarrow> mutation \<Rightarrow> ChangeSetWriter" where
  "notify w (AccountMutation k v) = w\<lparr>accountLog := upsert k v (accountLog w)\<rparr>"
| "notify w (StorageMutation k v) = w\<lparr>storageLog := upsert k v (storageLog w)\<rparr>"

definition ChangeSetWriter_GetAccountChanges ::
  "ChangeSetWriter \<Rightarrow> ChangeSet option \<times> string option" where
  "ChangeSetWriter_GetAccountChanges w = (Some \<lparr>Changes = accountLog w\<rparr>, None)"

definition ChangeSetWriter_GetStorageChanges ::
  "ChangeSetWriter \<Rightarrow> ChangeSet option \<times> string option" where
  "ChangeSetWriter_GetStorageChanges w = (Some \<lparr>Changes = storageLog w\<rparr>, None)"

text \<open>The recorder of one replay: created empty, then notified of each mutation in turn.\<close>

definition recorded :: "mutation list \<Rightarrow> ChangeSetWriter" where
  "recorded ms = foldl notify ChangeSetWriter_new ms"

text \<open>
  The words of the spec about the log (sections 3 and 8), as functions of the sequence of
  writes to one store. \<open>first_writes\<close> keeps the keys whose write is the first one to
  that key, in the order of these writes; \<open>last_write\<close> is the value of the last write
  to a key.
\<close>

definition first_writes :: "(bytes \<times> bytes) list \<Rightarrow> bytes list" where
  "first_writes ws =
     map (\<lambda>i. fst (ws ! i)) (filter (\<lambda>i. fst (ws ! i) \<notin> set (map fst (take i ws))) [0..<length ws])"

definition last_write :: "(bytes \<times> bytes) list \<Rightarrow> bytes \<Rightarrow> bytes option" where
  "last_write ws k =
     (let hits = filter (\<lambda>w. fst w = k) ws
      in if hits = [] then None else Some (snd (last hits)))"

text \<open>What the spec asks of the log \<open>cs\<close> of one store after the writes \<open>ws\<close>: no key
  twice, the keys in the order of their first writes, each with the value last written.\<close>

definition log_ok :: "(bytes \<times> bytes) list \<Rightarrow> Change list \<Rightarrow> bool" where
  "log_ok ws cs \<longleftrightarrow>
     distinct (map Key cs) \<and> map Key cs = first_writes ws \<and>
     (\<forall>c \<in> set cs. last_write ws (Key c) = Some (Value c))"

fun accountWrites :: "mutation list \<Rightarrow> (bytes \<times> bytes) list" where
  "accountWrites [] = []"
| "accountWrites (AccountMutation k v # ms) = (k, v) # accountWrites ms"
| "accountWrites (StorageMutation k v # ms) = accountWrites ms"

fun storageWrites :: "mutation list \<Rightarrow> (bytes \<times> bytes) list" where
  "storageWrites [] = []"
| "storageWrites (AccountMutation k v # ms) = storageWrites ms"
| "storageWrites (StorageMutation k v # ms) = (k, v) # storageWrites ms"

subsection \<open>A small world to run the functions in\<close>

text \<open>
  Concrete collaborators, used to evaluate the functions at concrete inputs. Genesis hashes
  are cut to their first four bytes. A transaction is a number and its hash is that number
  in 32 bytes; the engine rejects transaction
  \<open>0\<close> and accepts any other, which then reads and writes its own account and storage
  slot and the shared account \<open>ee\<close>. The DAO fork, the finalization (a block reward) and
  every accepted transaction add pending mutations to the overlay; the commit hands them
  to the writer, which is the recorder of the previous subsection. The store holds blocks
  and configuration texts; the decoder knows three texts. The third one has a string where
  \<open>chainId\<close> needs a number: as \<open>encoding/json\<close> does, the decoder sets the field
  that came before it and returns the error of the bad one. On anything else it reports a
  syntax error and writes nothing, as \<open>encoding/json\<close> does on input that is not JSON
  (it checks the syntax of the whole input before it fills in any field).
\<close>

definition ascii :: "string \<Rightarrow> bytes" where
  "ascii s = map of_char s"

record DemoOverlay =
  ov_pending :: "mutation list"
  ov_accountReads :: "bytes list"
  ov_storageReads :: "bytes list"

record DemoDB =
  demo_blocks :: "nat Block list"
  demo_configs :: "(bytes \<times> bytes) list"
  demo_online :: bool

definition demo_Unmarshal :: "bytes \<Rightarrow> ChainConfig \<Rightarrow> string option \<times> ChainConfig" where
  \<open>demo_Unmarshal data config =
     (if data = ascii ''{"daoForkSupport":true,"daoForkBlock":2}''
      then (None, config\<lparr>DAOForkSupport := True, DAOForkBlock := Some 2\<rparr>)
      else if data = ascii ''{"daoForkSupport":false,"daoForkBlock":2}''
      then (None, config\<lparr>DAOForkSupport := False, DAOForkBlock := Some 2\<rparr>)
      else if data = ascii ''{"daoForkSupport":true,"chainId":"x"}''
      then (Some ''math/big: cannot unmarshal into a *big.Int'', config\<lparr>DAOForkSupport := True\<rparr>)
      else (Some ''unexpected end of JSON input'', config))\<close>

definition demo_ApplyTransaction ::
  "nat \<Rightarrow> 64 word \<times> DemoOverlay \<times> ChangeSetWriter \<times> 64 word
     \<Rightarrow> (string + nat) \<times> (64 word \<times> DemoOverlay \<times> ChangeSetWriter \<times> 64 word)" where
  "demo_ApplyTransaction tx st =
     (case st of (gp, ov, w, usedGas) \<Rightarrow>
        if tx = 0 then (Inl ''nonce too low'', (gp, ov, w, usedGas))
        else (Inr (100 + tx),
              (gp - 21000,
               ov\<lparr>ov_pending := ov_pending ov @
                      [AccountMutation [of_nat tx] [1], AccountMutation [0xee] [of_nat tx],
                       StorageMutation [of_nat tx, 0] [7]],
                   ov_accountReads := ov_accountReads ov @ [[of_nat tx], [0xee]],
                   ov_storageReads := ov_storageReads ov @ [[of_nat tx, 0]]\<rparr>,
               w, usedGas + 21000)))"

definition demo ::
  "(DemoOverlay, ChangeSetWriter, nat, nat, DemoDB, DemoDB, unit, unit) Externals" where
  "demo =
     \<lparr>MainnetGenesisHash = [0xd4, 0xe5, 0x67, 0x40],
      RopstenGenesisHash = [0x41, 0x94, 0x10, 0x23],
      RinkebyGenesisHash = [0x63, 0x41, 0xfd, 0x3d],
      GoerliGenesisHash = [0xbf, 0x7e, 0x33, 0x1f],
      ConfigPrefix = ascii ''ethereum-config-'',
      View_begin = (\<lambda>db. if demo_online db then Inr db else Inl ''store unavailable''),
      Bucket_Get = (\<lambda>tx name k.
         case map_of (demo_configs tx) k of None \<Rightarrow> ([], None) | Some d \<Rightarrow> (d, None)),
      json_Unmarshal = demo_Unmarshal,
      remotechain_GetBlockByNumber = (\<lambda>tx n.
         case find (\<lambda>b. NumberU64 b = n) (demo_blocks tx) of
           None \<Rightarrow> (None, Some ''block not found'')
         | Some b \<Rightarrow> (Some b, None)),
      NewRemoteContext = (\<lambda>db. ()),
      NewIntraBlockState = (\<lambda>db n.
         \<lparr>ov_pending = [], ov_accountReads = [], ov_storageReads = []\<rparr>),
      NewNoopWriter = ChangeSetWriter_new,
      NewChangeSetWriter = ChangeSetWriter_new,
      GetAccountChanges = ChangeSetWriter_GetAccountChanges,
      GetStorageChanges = ChangeSetWriter_GetStorageChanges,
      GetAccountReads = ov_accountReads,
      GetStorageReads = ov_storageReads,
      TxHash = (\<lambda>tx. replicate 31 0 @ [of_nat tx]),
      ApplyDAOHardFork = (\<lambda>ov. ov\<lparr>ov_pending := ov_pending ov @ [AccountMutation [0xda] [0]]\<rparr>),
      ApplyTransaction = (\<lambda>chainConfig bcb header tx st. demo_ApplyTransaction tx st),
      FinalizeAndAssemble = (\<lambda>chainConfig header txs uncles receipts ov.
         (None, ov\<lparr>ov_pending := ov_pending ov @ [AccountMutation [0xc0] [2]]\<rparr>)),
      WithEIPsFlags = (\<lambda>chainConfig number. ()),
      CommitBlock = (\<lambda>ctx ov w. (None, ov\<lparr>ov_pending := []\<rparr>, foldl notify w (ov_pending ov)))\<rparr>"

text \<open>The same world with a consensus engine that refuses to finalize, with an overlay
  that fails to commit, with a recorder whose accessors hand back the change set and an
  error, with one whose accessors fail the Go way (\<open>return nil, err\<close>), and with one
  whose storage accessor alone fails that way.\<close>

definition demo_badFinalize ::
  "(DemoOverlay, ChangeSetWriter, nat, nat, DemoDB, DemoDB, unit, unit) Externals" where
  "demo_badFinalize =
     demo\<lparr>FinalizeAndAssemble := (\<lambda>chainConfig header txs uncles receipts ov.
            (Some ''invalid uncle'', ov))\<rparr>"

definition demo_badCommit ::
  "(DemoOverlay, ChangeSetWriter, nat, nat, DemoDB, DemoDB, unit, unit) Externals" where
  "demo_badCommit = demo\<lparr>CommitBlock := (\<lambda>ctx ov w. (Some ''write failed'', ov, w))\<rparr>"

definition demo_badAccessors ::
  "(DemoOverlay, ChangeSetWriter, nat, nat, DemoDB, DemoDB, unit, unit) Externals" where
  "demo_badAccessors =
     demo\<lparr>GetAccountChanges :=
            (\<lambda>w. (Some \<lparr>Changes = accountLog w\<rparr>, Some ''account changes lost'')),
          GetStorageChanges :=
            (\<lambda>w. (Some \<lparr>Changes = storageLog w\<rparr>, Some ''storage changes lost''))\<rparr>"

definition demo_nilAccessors ::
  "(DemoOverlay, ChangeSetWriter, nat, nat, DemoDB, DemoDB, unit, unit) Externals" where
  "demo_nilAccessors =
     demo\<lparr>GetAccountChanges := (\<lambda>w. (None, Some ''account changes lost'')),
          GetStorageChanges := (\<lambda>w. (None, Some ''storage changes lost''))\<rparr>"

definition demo_nilStorageAccessor ::
  "(DemoOverlay, ChangeSetWriter, nat, nat, DemoDB, DemoDB, unit, unit) Externals" where
  "demo_nilStorageAccessor =
     demo\<lparr>GetStorageChanges := (\<lambda>w. (None, Some ''storage changes lost''))\<rparr>"

text \<open>Blocks 2, 5 and 7 and a block at the largest height a \<open>uint64\<close> holds; block 5
  has the rejected transaction in second place, block 7 has no transactions.\<close>

definition demo_block :: "nat \<Rightarrow> nat list \<Rightarrow> nat Block" where
  "demo_block n txs =
     \<lparr>Header = \<lparr>Number = n, GasLimit = 8000000\<rparr>, Transactions = txs, Uncles = []\<rparr>"

definition demo_db :: DemoDB where
  \<open>demo_db =
     \<lparr>demo_blocks =
        [demo_block 2 [1, 2, 3], demo_block 5 [1, 0, 3], demo_block 7 [],
         demo_block 18446744073709551615 [4]],
      demo_configs =
        [([0xd4, 0xe5, 0x67, 0x40], ascii ''{"daoForkSupport":true,"daoForkBlock":2}''),
         ([0x41, 0x94, 0x10, 0x23], ascii ''{"daoForkSupport":false,"daoForkBlock":2}''),
         ([0xbf, 0x7e, 0x33, 0x1f], ascii ''{"daoForkSupport":true,"chainId":"x"}'')],
      demo_online = True\<rparr>\<close>

section \<open>Properties\<close>

subsection \<open>The wrapped collaborators\<close>

lemma spy_ApplyTransaction:
  "ApplyTransaction (spy X) cfg bcb h tx (gp, (ibs, calls), w, u) =
     (case ApplyTransaction X cfg bcb h tx (gp, ibs, w, u) of
        (r, (gp', ibs', w', u')) \<Rightarrow> (r, (gp', (ibs', calls @ [CallApply tx r]), w', u')))"
  by (simp add: spy_def)

lemma spy_FinalizeAndAssemble:
  "FinalizeAndAssemble (spy X) cfg h txs uncles rs (ibs, calls) =
     (case FinalizeAndAssemble X cfg h txs uncles rs ibs of
        (err, ibs') \<Rightarrow> (err, (ibs', calls @ [CallFinalize txs rs err])))"
  by (simp add: spy_def)

lemma spy_CommitBlock:
  "CommitBlock (spy X) ctx (ibs, calls) w =
     (case CommitBlock X ctx ibs w of
        (err, ibs', w') \<Rightarrow> (err, (ibs', calls @ [CallCommit w err]), w'))"
  by (simp add: spy_def)

lemma spy_ApplyDAOHardFork:
  "ApplyDAOHardFork (spy X) (ibs, calls) = (ApplyDAOHardFork X ibs, calls @ [CallDAO])"
  by (simp add: spy_def)

lemma spy_pure [simp]:
  "TxHash (spy X) = TxHash X"
  "WithEIPsFlags (spy X) = WithEIPsFlags X"
  by (simp_all add: spy_def)

text \<open>The loop on \<open>spy X\<close>: the result and the objects are those of the loop on \<open>X\<close>,
  and the list of calls grows by one entry per transaction tried.\<close>

lemma applyTransactions_spy:
  "\<exists>new. applyTransactions (spy X) cfg bcb h txs rs (gp, (ibs, t), w, u) =
     (case applyTransactions X cfg bcb h txs rs (gp, ibs, w, u) of
        (res, (gp', ibs', w', u')) \<Rightarrow> (res, (gp', (ibs', t @ new), w', u'))) \<and>
     (case fst (applyTransactions X cfg bcb h txs rs (gp, ibs, w, u)) of
        Inr rs' \<Rightarrow> (\<exists>out. rs' = rs @ out \<and> length out = length txs \<and> new = applied txs out)
      | Inl e \<Rightarrow> (\<exists>i out cause. i < length txs \<and> length out = i \<and>
            e = TxFailed (TxHash X (txs ! i)) cause \<and>
            new = applied (take i txs) out @ [CallApply (txs ! i) (Inl cause)]))"
proof (induction txs arbitrary: rs gp ibs t w u)
  case Nil
  show ?case by (simp add: applied_def)
next
  case (Cons tx txs)
  obtain r gp1 ibs1 w1 u1 where step:
    "ApplyTransaction X cfg bcb h tx (gp, ibs, w, u) = (r, (gp1, ibs1, w1, u1))"
    by (metis prod_cases5)
  show ?case
  proof (cases r)
    case (Inl cause)
    show ?thesis
      using step Inl
      by (intro exI[of _ "[CallApply tx (Inl cause)]"])
         (auto simp: spy_ApplyTransaction applied_def intro!: exI[of _ "0::nat"])
  next
    case (Inr receipt)
    from Cons.IH[of "rs @ [receipt]" gp1 ibs1 "t @ [CallApply tx (Inr receipt)]" w1 u1]
    obtain new where new:
      "applyTransactions (spy X) cfg bcb h txs (rs @ [receipt]) (gp1, (ibs1, t @ [CallApply tx (Inr receipt)]), w1, u1) =
        (case applyTransactions X cfg bcb h txs (rs @ [receipt]) (gp1, ibs1, w1, u1) of
          (res, (gp', ibs', w', u')) \<Rightarrow> (res, (gp', (ibs', (t @ [CallApply tx (Inr receipt)]) @ new), w', u')))"
      "(case fst (applyTransactions X cfg bcb h txs (rs @ [receipt]) (gp1, ibs1, w1, u1)) of
        Inr rs' \<Rightarrow> (\<exists>out. rs' = (rs @ [receipt]) @ out \<and> length out = length txs \<and> new = applied txs out)
      | Inl e \<Rightarrow> (\<exists>i out cause. i < length txs \<and> length out = i \<and>
            e = TxFailed (TxHash X (txs ! i)) cause \<and>
            new = applied (take i txs) out @ [CallApply (txs ! i) (Inl cause)]))"
      by blast
    show ?thesis
    proof (cases "fst (applyTransactions X cfg bcb h txs (rs @ [receipt]) (gp1, ibs1, w1, u1))")
      case (Inl e)
      with new(2) obtain i out cause where io: "i < length txs" "length out = i"
        "e = TxFailed (TxHash X (txs ! i)) cause"
        "new = applied (take i txs) out @ [CallApply (txs ! i) (Inl cause)]"
        by auto
      show ?thesis
        using step Inr new(1) Inl io
        by (intro exI[of _ "CallApply tx (Inr receipt) # new"])
           (auto simp: spy_ApplyTransaction applied_def split: prod.splits
                 intro!: exI[of _ "Suc i"] exI[of _ "receipt # out"])
    next
      case (Inr rs')
      with new(2) obtain out where io: "rs' = (rs @ [receipt]) @ out" "length out = length txs"
        "new = applied txs out"
        by auto
      show ?thesis
        using step \<open>r = Inr receipt\<close> new(1) Inr io
        by (intro exI[of _ "CallApply tx (Inr receipt) # new"])
           (auto simp: spy_ApplyTransaction applied_def split: prod.splits
                 intro!: exI[of _ "receipt # out"])
    qed
  qed
qed


lemma runBlock_spy_cases:
  fixes X :: "('ibs, 'wr, 'tx, 'rc, 'db, 'txn, 'cc, 'ctx) Externals"
    and ibs tw bw cfg bcb block
  defines "R \<equiv> runBlock X ibs tw bw cfg bcb block"
      and "S \<equiv> runBlock (spy X) (ibs, []) tw bw cfg bcb block"
      and "txs \<equiv> Transactions block"
  shows "\<exists>calls. S = (fst R, (fst (snd R), calls), snd (snd R)) \<and>
     (\<exists>out.
       (\<exists>cause. length out < length txs \<and>
           fst R = Some (TxFailed (TxHash X (txs ! length out)) cause) \<and>
           calls = dao_calls cfg block @ applied (take (length out) txs) out
                     @ [CallApply (txs ! length out) (Inl cause)])
     \<or> (\<exists>fe. length out = length txs \<and>
           fst R = Some (FinalizeFailed (NumberU64 block) fe) \<and>
           calls = dao_calls cfg block @ applied txs out @ [CallFinalize txs out (Some fe)])
     \<or> (\<exists>ce. length out = length txs \<and>
           fst R = Some (CommitFailed (NumberU64 block) ce) \<and>
           calls = dao_calls cfg block @ applied txs out
                     @ [CallFinalize txs out None, CallCommit bw (Some ce)])
     \<or> (length out = length txs \<and> fst R = None \<and>
           calls = dao_calls cfg block @ applied txs out
                     @ [CallFinalize txs out None, CallCommit bw None]))"
proof -
  define ibs1 where "ibs1 = (if daoForkDue cfg block then ApplyDAOHardFork X ibs else ibs)"
  define gp where "gp = 0 + GasLimit (Header block)"
  define L where "L = applyTransactions X cfg bcb (Header block) txs [] (gp, ibs1, tw, 0)"
  have start: "(if daoForkDue cfg block then ApplyDAOHardFork (spy X) (ibs, []) else (ibs, []))
      = (ibs1, dao_calls cfg block :: ('tx, 'rc, 'wr) call list)"
    by (simp add: ibs1_def dao_calls_def spy_ApplyDAOHardFork)
  obtain new :: "('tx, 'rc, 'wr) call list" where loop:
    "applyTransactions (spy X) cfg bcb (Header block) txs [] (gp, (ibs1, dao_calls cfg block), tw, 0) =
       (case L of (res, (gp', ibs', w', u')) \<Rightarrow> (res, (gp', (ibs', dao_calls cfg block @ new), w', u')))"
    and shape:
    "(case fst L of
        Inr rs' \<Rightarrow> (\<exists>out. rs' = [] @ out \<and> length out = length txs \<and> new = applied txs out)
      | Inl e \<Rightarrow> (\<exists>i out cause. i < length txs \<and> length out = i \<and>
            e = TxFailed (TxHash X (txs ! i)) cause \<and>
            new = applied (take i txs) out @ [CallApply (txs ! i) (Inl cause)]))"
    unfolding L_def using applyTransactions_spy[of X cfg bcb "Header block" txs "[]" gp ibs1 "dao_calls cfg block" tw 0]
    by blast
  obtain res gp' ibs2 tw' u' where L: "L = (res, (gp', ibs2, tw', u'))"
    by (metis prod_cases5)
  show ?thesis
  proof (cases res)
    case (Inl e)
    with shape L obtain out cause where
      "length out < length txs" "e = TxFailed (TxHash X (txs ! length out)) cause"
      "new = applied (take (length out) txs) out @ [CallApply (txs ! length out) (Inl cause)]"
      by auto
    then show ?thesis
      using L Inl loop start
      unfolding R_def S_def runBlock_def Let_def txs_def[symmetric] gp_def[symmetric] ibs1_def[symmetric] L_def[symmetric]
      by (auto simp: spy_pure)
  next
    case (Inr rs)
    with shape L have out: "length rs = length txs" "new = applied txs rs"
      by auto
    obtain fe ibs3 where F: "FinalizeAndAssemble X cfg (Header block) txs (Uncles block) rs ibs2 = (fe, ibs3)"
      by (metis surj_pair)
    show ?thesis
    proof (cases fe)
      case (Some e)
      then show ?thesis
        using L Inr loop start out F
        unfolding R_def S_def runBlock_def Let_def txs_def[symmetric] gp_def[symmetric] ibs1_def[symmetric] L_def[symmetric]
        by (auto simp: spy_pure spy_FinalizeAndAssemble)
    next
      case None
      obtain ce ibs4 bw' where C: "CommitBlock X (WithEIPsFlags X cfg (Number (Header block))) ibs3 bw = (ce, ibs4, bw')"
        by (metis prod_cases3)
      show ?thesis
        using L Inr loop start out F None C
        unfolding R_def S_def runBlock_def Let_def txs_def[symmetric] gp_def[symmetric] ibs1_def[symmetric] L_def[symmetric]
        by (cases ce) (auto simp: spy_pure spy_FinalizeAndAssemble spy_CommitBlock)
    qed
  qed
qed




subsection \<open>The recorder keeps its log in order\<close>

lemma map_Key_upsert:
  "map Key (upsert k v cs) = (if k \<in> set (map Key cs) then map Key cs else map Key cs @ [k])"
  by (induction cs) auto

lemma distinct_upsert: "distinct (map Key cs) \<Longrightarrow> distinct (map Key (upsert k v cs))"
  by (simp add: map_Key_upsert)

lemma first_writes_snoc:
  "first_writes (ws @ [(k, v)]) =
     (if k \<in> set (map fst ws) then first_writes ws else first_writes ws @ [k])"
proof -
  have "\<And>i. i < length ws \<Longrightarrow> (ws @ [(k, v)]) ! i = ws ! i"
    by (simp add: nth_append)
  moreover have "\<And>i. i < length ws \<Longrightarrow> take i (ws @ [(k, v)]) = take i ws"
    by simp
  ultimately have "filter (\<lambda>i. fst ((ws @ [(k, v)]) ! i) \<notin> set (map fst (take i (ws @ [(k, v)])))) [0..<length ws]
      = filter (\<lambda>i. fst (ws ! i) \<notin> set (map fst (take i ws))) [0..<length ws]"
    by (intro filter_cong) auto
  moreover have "map (\<lambda>i. fst ((ws @ [(k, v)]) ! i)) (filter (\<lambda>i. fst (ws ! i) \<notin> set (map fst (take i ws))) [0..<length ws])
     = map (\<lambda>i. fst (ws ! i)) (filter (\<lambda>i. fst (ws ! i) \<notin> set (map fst (take i ws))) [0..<length ws])"
    by (intro map_cong) (auto simp: nth_append)
  ultimately show ?thesis
    by (simp add: first_writes_def)
qed

lemma last_write_snoc:
  "last_write (ws @ [(k, v)]) k' = (if k' = k then Some v else last_write ws k')"
  by (simp add: last_write_def Let_def)

lemma Value_upsert:
  "c \<in> set (upsert k v cs) \<Longrightarrow> Key c = k \<Longrightarrow> distinct (map Key cs) \<Longrightarrow> Value c = v"
proof (induction cs)
  case Nil
  then show ?case by simp
next
  case (Cons a cs)
  show ?case
  proof (cases "Key a = k")
    case True
    with Cons.prems show ?thesis by (auto simp: image_iff)
  next
    case False
    with Cons show ?thesis by auto
  qed
qed

lemma other_upsert:
  "c \<in> set (upsert k v cs) \<Longrightarrow> Key c \<noteq> k \<Longrightarrow> c \<in> set cs"
  by (induction cs) (auto split: if_splits)

lemma accountWrites_snoc:
  "accountWrites (ms @ [m]) =
     accountWrites ms @ (case m of AccountMutation k v \<Rightarrow> [(k, v)] | StorageMutation k v \<Rightarrow> [])"
  by (induction ms rule: accountWrites.induct) (auto split: mutation.splits)

lemma storageWrites_snoc:
  "storageWrites (ms @ [m]) =
     storageWrites ms @ (case m of AccountMutation k v \<Rightarrow> [] | StorageMutation k v \<Rightarrow> [(k, v)])"
  by (induction ms rule: storageWrites.induct) (auto split: mutation.splits)

lemma set_first_writes: "set (first_writes ws) = set (map fst ws)"
proof (induction ws rule: rev_induct)
  case Nil
  show ?case by (simp add: first_writes_def)
next
  case (snoc w ws)
  obtain k v where "w = (k, v)" by (cases w)
  with snoc show ?case by (auto simp: first_writes_snoc)
qed

lemma log_ok_upsert:
  assumes "log_ok ws cs"
  shows "log_ok (ws @ [(k, v)]) (upsert k v cs)"
proof -
  from assms have d: "distinct (map Key cs)" and f: "map Key cs = first_writes ws"
    and l: "\<And>c. c \<in> set cs \<Longrightarrow> last_write ws (Key c) = Some (Value c)"
    by (auto simp: log_ok_def)
  have "distinct (map Key (upsert k v cs))"
    using d by (rule distinct_upsert)
  moreover have "map Key (upsert k v cs) = first_writes (ws @ [(k, v)])"
    using f set_first_writes[of ws] by (simp add: map_Key_upsert first_writes_snoc)
  moreover have "last_write (ws @ [(k, v)]) (Key c) = Some (Value c)"
    if "c \<in> set (upsert k v cs)" for c
  proof (cases "Key c = k")
    case True
    have "Value c = v" by (rule Value_upsert[OF that True d])
    with True show ?thesis by (simp add: last_write_snoc)
  next
    case False
    with that have "c \<in> set cs" by (rule other_upsert)
    with False l show ?thesis by (simp add: last_write_snoc)
  qed
  ultimately show ?thesis by (simp add: log_ok_def)
qed

lemma recorded_snoc: "recorded (ms @ [m]) = notify (recorded ms) m"
  by (simp add: recorded_def)

lemma recorded_log_ok:
  "log_ok (accountWrites ms) (accountLog (recorded ms)) \<and>
   log_ok (storageWrites ms) (storageLog (recorded ms))"
proof (induction ms rule: rev_induct)
  case Nil
  show ?case by (simp add: recorded_def ChangeSetWriter_new_def log_ok_def first_writes_def)
next
  case (snoc m ms)
  then show ?case
    by (cases m) (simp_all add: recorded_snoc accountWrites_snoc storageWrites_snoc log_ok_upsert)
qed


subsection \<open>The calls of one run\<close>

text \<open>Wrapping changes nothing but the list: the run on \<open>spy X\<close> returns the error, the
  overlay and the writers that the run on \<open>X\<close> returns.\<close>

lemma runBlock_spy:
  "runBlock (spy X) (ibs, []) tw bw cfg bcb block =
     (case runBlock X ibs tw bw cfg bcb block of
        (err, ibs', tw', bw') \<Rightarrow> (err, (ibs', calls_of X ibs tw bw cfg bcb block), tw', bw'))"
  using runBlock_spy_cases[of X ibs tw bw cfg bcb block]
  by (auto simp: calls_of_def split: prod.splits)

lemma calls_of_cases:
  fixes X :: "('ibs, 'wr, 'tx, 'rc, 'db, 'txn, 'cc, 'ctx) Externals"
    and ibs tw bw cfg bcb block
  defines "err \<equiv> fst (runBlock X ibs tw bw cfg bcb block)"
      and "calls \<equiv> calls_of X ibs tw bw cfg bcb block"
      and "txs \<equiv> Transactions block"
  shows "\<exists>out.
       (\<exists>cause. length out < length txs \<and>
           err = Some (TxFailed (TxHash X (txs ! length out)) cause) \<and>
           calls = dao_calls cfg block @ applied (take (length out) txs) out
                     @ [CallApply (txs ! length out) (Inl cause)])
     \<or> (\<exists>fe. length out = length txs \<and>
           err = Some (FinalizeFailed (NumberU64 block) fe) \<and>
           calls = dao_calls cfg block @ applied txs out @ [CallFinalize txs out (Some fe)])
     \<or> (\<exists>ce. length out = length txs \<and>
           err = Some (CommitFailed (NumberU64 block) ce) \<and>
           calls = dao_calls cfg block @ applied txs out
                     @ [CallFinalize txs out None, CallCommit bw (Some ce)])
     \<or> (length out = length txs \<and> err = None \<and>
           calls = dao_calls cfg block @ applied txs out
                     @ [CallFinalize txs out None, CallCommit bw None])"
proof -
  from runBlock_spy_cases[of X ibs tw bw cfg bcb block]
  obtain cs :: "('tx, 'rc, 'wr) call list" where
      S: "runBlock (spy X) (ibs, []) tw bw cfg bcb block =
            (fst (runBlock X ibs tw bw cfg bcb block),
             (fst (snd (runBlock X ibs tw bw cfg bcb block)), cs),
             snd (snd (runBlock X ibs tw bw cfg bcb block)))"
    and C: "\<exists>out.
       (\<exists>cause. length out < length txs \<and>
           err = Some (TxFailed (TxHash X (txs ! length out)) cause) \<and>
           cs = dao_calls cfg block @ applied (take (length out) txs) out
                     @ [CallApply (txs ! length out) (Inl cause)])
     \<or> (\<exists>fe. length out = length txs \<and>
           err = Some (FinalizeFailed (NumberU64 block) fe) \<and>
           cs = dao_calls cfg block @ applied txs out @ [CallFinalize txs out (Some fe)])
     \<or> (\<exists>ce. length out = length txs \<and>
           err = Some (CommitFailed (NumberU64 block) ce) \<and>
           cs = dao_calls cfg block @ applied txs out
                     @ [CallFinalize txs out None, CallCommit bw (Some ce)])
     \<or> (length out = length txs \<and> err = None \<and>
           cs = dao_calls cfg block @ applied txs out
                     @ [CallFinalize txs out None, CallCommit bw None])"
    unfolding err_def txs_def by blast
  have "calls = cs"
    by (simp add: calls_def calls_of_def S)
  with C show ?thesis by simp
qed

text \<open>The four ways a run of \<open>runBlock\<close> can end, each with the calls it made.\<close>

lemma runBlock_outcomes:
  fixes X :: "('ibs, 'wr, 'tx, 'rc, 'db, 'txn, 'cc, 'ctx) Externals"
  obtains
    (rejected) receipts cause where
      "length receipts < length (Transactions block)"
      "fst (runBlock X ibs tw bw cfg bcb block) =
         Some (TxFailed (TxHash X (Transactions block ! length receipts)) cause)"
      "calls_of X ibs tw bw cfg bcb block =
         dao_calls cfg block @ applied (take (length receipts) (Transactions block)) receipts
           @ [CallApply (Transactions block ! length receipts) (Inl cause)]"
  | (finalize_failed) receipts cause where
      "length receipts = length (Transactions block)"
      "fst (runBlock X ibs tw bw cfg bcb block) = Some (FinalizeFailed (NumberU64 block) cause)"
      "calls_of X ibs tw bw cfg bcb block =
         dao_calls cfg block @ applied (Transactions block) receipts
           @ [CallFinalize (Transactions block) receipts (Some cause)]"
  | (commit_failed) receipts cause where
      "length receipts = length (Transactions block)"
      "fst (runBlock X ibs tw bw cfg bcb block) = Some (CommitFailed (NumberU64 block) cause)"
      "calls_of X ibs tw bw cfg bcb block =
         dao_calls cfg block @ applied (Transactions block) receipts
           @ [CallFinalize (Transactions block) receipts None, CallCommit bw (Some cause)]"
  | (completed) receipts where
      "length receipts = length (Transactions block)"
      "fst (runBlock X ibs tw bw cfg bcb block) = None"
      "calls_of X ibs tw bw cfg bcb block =
         dao_calls cfg block @ applied (Transactions block) receipts
           @ [CallFinalize (Transactions block) receipts None, CallCommit bw None]"
  using calls_of_cases[where X=X and ibs=ibs and tw=tw and bw=bw and cfg=cfg and bcb=bcb and block=block]
  apply (elim exE disjE conjE)
     apply (erule (2) rejected)
    apply (erule (2) finalize_failed)
   apply (erule (2) commit_failed)
  apply (erule (2) completed)
  done

text \<open>The definitions that evaluating a run in the small world unfolds.\<close>

lemmas demo_simps = demo_def demo_db_def demo_block_def demo_Unmarshal_def demo_ApplyTransaction_def
  ascii_def Retrace_def ReadChainConfig_def genesisKey_def readConfigData_def GetBlockByNumber_def
  runBlock_def daoForkDue_def NumberU64_def Atoi_def isDigit_def ChainConfig_zero_def
  RetraceResponse_zero_def Bytes2Hex_def hextable_def ChangeSetWriter_new_def
  ChangeSetWriter_GetAccountChanges_def ChangeSetWriter_GetStorageChanges_def
  demo_badFinalize_def demo_badCommit_def demo_badAccessors_def demo_nilAccessors_def
  demo_nilStorageAccessor_def Let_def
  calls_of_def spy_def dao_calls_def applied_def schedule_def

subsection \<open>What the calls of a run look like\<close>

lemma daoForkDue_iff:
  "daoForkDue chainConfig block \<longleftrightarrow>
     DAOForkSupport chainConfig \<and> DAOForkBlock chainConfig = Some (int (Number (Header block)))"
  by (auto simp: daoForkDue_def split: option.splits)

lemma CallDAO_notin_applied [simp]: "CallDAO \<notin> set (applied txs receipts)"
  by (auto simp: applied_def)

lemma set_dao_calls: "CallDAO \<in> set (dao_calls chainConfig block) \<longleftrightarrow> daoForkDue chainConfig block"
  by (simp add: dao_calls_def)



lemma Commit_notin_dao [simp]: "Commit \<notin> phase_of ` set (dao_calls chainConfig block)"
  by (auto simp: dao_calls_def)


lemma count_Commit_txs [simp]: "count_list (map ApplyTx txs) Commit = 0"
  by (induction txs) simp_all

lemma Commit_notin_txs [simp]: "Commit \<notin> ApplyTx ` set txs"
  by auto

lemma CallCommit_notin_applied [simp]: "CallCommit w ce \<notin> set (applied txs receipts)"
  by (auto simp: applied_def)

lemma CallCommit_notin_dao [simp]: "CallCommit w ce \<notin> set (dao_calls chainConfig block)"
  by (simp add: dao_calls_def)


lemma runBlock_error_kinds:
  assumes "fst (runBlock X ibs tw bw cfg bcb block) = Some e"
  shows "(\<exists>h c. e = TxFailed h c) \<or> (\<exists>c. e = FinalizeFailed (NumberU64 block) c)
       \<or> (\<exists>c. e = CommitFailed (NumberU64 block) c)"
  using assms
  by (cases rule: runBlock_outcomes[where X=X and ibs=ibs and tw=tw and bw=bw and cfg=cfg
        and bcb=bcb and block=block]) auto

subsection \<open>Retrace, path by path\<close>

lemma Retrace_Atoi_error:
  "Atoi blockNumber = Inl e \<Longrightarrow>
     Retrace X blockNumber chain remoteDB = Returns (RetraceResponse_zero, Some e)"
  by (simp add: Retrace_def)

lemma Retrace_lookup_error:
  "Atoi blockNumber = Inr bn \<Longrightarrow> GetBlockByNumber X remoteDB (word_of_int bn) = (b, Some m) \<Longrightarrow>
     Retrace X blockNumber chain remoteDB = Returns (RetraceResponse_zero, Some (StoreError m))"
  by (simp add: Retrace_def)

lemma Retrace_nil_block:
  "Atoi blockNumber = Inr bn \<Longrightarrow> GetBlockByNumber X remoteDB (word_of_int bn) = (None, None) \<Longrightarrow>
     Retrace X blockNumber chain remoteDB = Panics"
  by (simp add: Retrace_def)

lemma Retrace_runBlock_error:
  "Atoi blockNumber = Inr bn \<Longrightarrow>
   GetBlockByNumber X remoteDB (word_of_int bn) = (Some blk, None) \<Longrightarrow>
   fst (runBlock X (NewIntraBlockState X remoteDB (word_of_int bn)) (NewNoopWriter X)
          (NewChangeSetWriter X) (ReadChainConfig X remoteDB chain) (NewRemoteContext X remoteDB) blk)
     = Some e \<Longrightarrow>
   Retrace X blockNumber chain remoteDB = Returns (RetraceResponse_zero, Some e)"
  by (auto simp: Retrace_def Let_def split: prod.splits)

lemma Retrace_nil_account_changes:
  "Atoi blockNumber = Inr bn \<Longrightarrow>
   GetBlockByNumber X remoteDB (word_of_int bn) = (Some blk, None) \<Longrightarrow>
   runBlock X (NewIntraBlockState X remoteDB (word_of_int bn)) (NewNoopWriter X)
          (NewChangeSetWriter X) (ReadChainConfig X remoteDB chain) (NewRemoteContext X remoteDB) blk
     = (None, ibs', noOpWriter', writer') \<Longrightarrow>
   GetAccountChanges X writer' = (None, accountErr) \<Longrightarrow>
   Retrace X blockNumber chain remoteDB = Panics"
  by (simp add: Retrace_def Let_def split: prod.splits)

lemma Retrace_nil_storage_changes:
  "Atoi blockNumber = Inr bn \<Longrightarrow>
   GetBlockByNumber X remoteDB (word_of_int bn) = (Some blk, None) \<Longrightarrow>
   runBlock X (NewIntraBlockState X remoteDB (word_of_int bn)) (NewNoopWriter X)
          (NewChangeSetWriter X) (ReadChainConfig X remoteDB chain) (NewRemoteContext X remoteDB) blk
     = (None, ibs', noOpWriter', writer') \<Longrightarrow>
   GetAccountChanges X writer' = (Some ac, accountErr) \<Longrightarrow>
   GetStorageChanges X writer' = (None, storageErr) \<Longrightarrow>
   Retrace X blockNumber chain remoteDB = Panics"
  by (simp add: Retrace_def Let_def split: prod.splits)

lemma Retrace_runBlock_ok:
  "Atoi blockNumber = Inr bn \<Longrightarrow>
   GetBlockByNumber X remoteDB (word_of_int bn) = (Some blk, None) \<Longrightarrow>
   runBlock X (NewIntraBlockState X remoteDB (word_of_int bn)) (NewNoopWriter X)
          (NewChangeSetWriter X) (ReadChainConfig X remoteDB chain) (NewRemoteContext X remoteDB) blk
     = (None, ibs', noOpWriter', writer') \<Longrightarrow>
   GetAccountChanges X writer' = (Some ac, accountErr) \<Longrightarrow>
   GetStorageChanges X writer' = (Some sc, storageErr) \<Longrightarrow>
   Retrace X blockNumber chain remoteDB =
     Returns
       (\<lparr>Storage = \<lparr>Reads = map Bytes2Hex (GetStorageReads X ibs'),
                     Writes = map (\<lambda>ch. Bytes2Hex (Key ch)) (Changes sc)\<rparr>,
         Account = \<lparr>Reads = map Bytes2Hex (GetAccountReads X ibs'),
                     Writes = map (\<lambda>ch. Bytes2Hex (Key ch)) (Changes ac)\<rparr>\<rparr>,
        None)"
  by (simp add: Retrace_def Let_def split: prod.splits)

text \<open>Every way \<open>Retrace\<close> can end.\<close>

lemma Retrace_outcomes:
  obtains
    (bad_number) e where "Atoi blockNumber = Inl e"
      "Retrace X blockNumber chain remoteDB = Returns (RetraceResponse_zero, Some e)"
  | (lookup_failed) bn b m where "Atoi blockNumber = Inr bn"
      "GetBlockByNumber X remoteDB (word_of_int bn) = (b, Some m)"
      "Retrace X blockNumber chain remoteDB = Returns (RetraceResponse_zero, Some (StoreError m))"
  | (nil_block) bn where "Atoi blockNumber = Inr bn"
      "GetBlockByNumber X remoteDB (word_of_int bn) = (None, None)"
      "Retrace X blockNumber chain remoteDB = Panics"
  | (replay_failed) bn blk e where "Atoi blockNumber = Inr bn"
      "GetBlockByNumber X remoteDB (word_of_int bn) = (Some blk, None)"
      "fst (runBlock X (NewIntraBlockState X remoteDB (word_of_int bn)) (NewNoopWriter X)
          (NewChangeSetWriter X) (ReadChainConfig X remoteDB chain) (NewRemoteContext X remoteDB) blk)
        = Some e"
      "Retrace X blockNumber chain remoteDB = Returns (RetraceResponse_zero, Some e)"
  | (nil_account_changes) bn blk ibs' noOpWriter' writer' accountErr where
      "Atoi blockNumber = Inr bn"
      "GetBlockByNumber X remoteDB (word_of_int bn) = (Some blk, None)"
      "runBlock X (NewIntraBlockState X remoteDB (word_of_int bn)) (NewNoopWriter X)
          (NewChangeSetWriter X) (ReadChainConfig X remoteDB chain) (NewRemoteContext X remoteDB) blk
        = (None, ibs', noOpWriter', writer')"
      "GetAccountChanges X writer' = (None, accountErr)"
      "Retrace X blockNumber chain remoteDB = Panics"
  | (nil_storage_changes) bn blk ibs' noOpWriter' writer' ac accountErr storageErr where
      "Atoi blockNumber = Inr bn"
      "GetBlockByNumber X remoteDB (word_of_int bn) = (Some blk, None)"
      "runBlock X (NewIntraBlockState X remoteDB (word_of_int bn)) (NewNoopWriter X)
          (NewChangeSetWriter X) (ReadChainConfig X remoteDB chain) (NewRemoteContext X remoteDB) blk
        = (None, ibs', noOpWriter', writer')"
      "GetAccountChanges X writer' = (Some ac, accountErr)"
      "GetStorageChanges X writer' = (None, storageErr)"
      "Retrace X blockNumber chain remoteDB = Panics"
  | (replayed) bn blk ibs' noOpWriter' writer' ac accountErr sc storageErr where
      "Atoi blockNumber = Inr bn"
      "GetBlockByNumber X remoteDB (word_of_int bn) = (Some blk, None)"
      "runBlock X (NewIntraBlockState X remoteDB (word_of_int bn)) (NewNoopWriter X)
          (NewChangeSetWriter X) (ReadChainConfig X remoteDB chain) (NewRemoteContext X remoteDB) blk
        = (None, ibs', noOpWriter', writer')"
      "GetAccountChanges X writer' = (Some ac, accountErr)"
      "GetStorageChanges X writer' = (Some sc, storageErr)"
      "Retrace X blockNumber chain remoteDB =
         Returns
           (\<lparr>Storage = \<lparr>Reads = map Bytes2Hex (GetStorageReads X ibs'),
                         Writes = map (\<lambda>ch. Bytes2Hex (Key ch)) (Changes sc)\<rparr>,
             Account = \<lparr>Reads = map Bytes2Hex (GetAccountReads X ibs'),
                         Writes = map (\<lambda>ch. Bytes2Hex (Key ch)) (Changes ac)\<rparr>\<rparr>,
            None)"
proof (cases "Atoi blockNumber")
  case (Inl e)
  then show ?thesis by (rule bad_number) (rule Retrace_Atoi_error[OF Inl])
next
  case (Inr bn)
  obtain b le where L: "GetBlockByNumber X remoteDB (word_of_int bn) = (b, le)"
    by (cases "GetBlockByNumber X remoteDB (word_of_int bn)")
  show ?thesis
  proof (cases le)
    case (Some m)
    with L have L': "GetBlockByNumber X remoteDB (word_of_int bn) = (b, Some m)" by simp
    show ?thesis by (rule lookup_failed[OF Inr L' Retrace_lookup_error[OF Inr L']])
  next
    case None
    show ?thesis
    proof (cases b)
      case None
      with L \<open>le = None\<close> have L': "GetBlockByNumber X remoteDB (word_of_int bn) = (None, None)" by simp
      show ?thesis by (rule nil_block[OF Inr L' Retrace_nil_block[OF Inr L']])
    next
      case (Some blk)
      with L \<open>le = None\<close> have L': "GetBlockByNumber X remoteDB (word_of_int bn) = (Some blk, None)" by simp
      obtain err ibs' tw' w' where R:
        "runBlock X (NewIntraBlockState X remoteDB (word_of_int bn)) (NewNoopWriter X)
          (NewChangeSetWriter X) (ReadChainConfig X remoteDB chain) (NewRemoteContext X remoteDB) blk
          = (err, ibs', tw', w')"
        by (metis prod_cases4)
      show ?thesis
      proof (cases err)
        case None
        with R have R': "runBlock X (NewIntraBlockState X remoteDB (word_of_int bn)) (NewNoopWriter X)
          (NewChangeSetWriter X) (ReadChainConfig X remoteDB chain) (NewRemoteContext X remoteDB) blk
          = (None, ibs', tw', w')" by simp
        obtain a ae where A: "GetAccountChanges X w' = (a, ae)"
          by (cases "GetAccountChanges X w'")
        show ?thesis
        proof (cases a)
          case None
          with A have A': "GetAccountChanges X w' = (None, ae)" by simp
          show ?thesis
            by (rule nil_account_changes[OF Inr L' R' A'
                  Retrace_nil_account_changes[OF Inr L' R' A']])
        next
          case (Some ac)
          with A have A': "GetAccountChanges X w' = (Some ac, ae)" by simp
          obtain t te where S: "GetStorageChanges X w' = (t, te)"
            by (cases "GetStorageChanges X w'")
          show ?thesis
          proof (cases t)
            case None
            with S have S': "GetStorageChanges X w' = (None, te)" by simp
            show ?thesis
              by (rule nil_storage_changes[OF Inr L' R' A' S'
                    Retrace_nil_storage_changes[OF Inr L' R' A' S']])
          next
            case (Some sc)
            with S have S': "GetStorageChanges X w' = (Some sc, te)" by simp
            show ?thesis
              by (rule replayed[OF Inr L' R' A' S' Retrace_runBlock_ok[OF Inr L' R' A' S']])
          qed
        qed
      next
        case (Some e)
        with R have R': "fst (runBlock X (NewIntraBlockState X remoteDB (word_of_int bn)) (NewNoopWriter X)
          (NewChangeSetWriter X) (ReadChainConfig X remoteDB chain) (NewRemoteContext X remoteDB) blk)
          = Some e" by simp
        show ?thesis by (rule replay_failed[OF Inr L' R' Retrace_runBlock_error[OF Inr L' R']])
      qed
    qed
  qed
qed

subsection \<open>ReadChainConfig, step by step\<close>

lemma genesisKey_unknown:
  "chain \<notin> {''mainnet'', ''testnet'', ''rinkeby'', ''goerli''} \<Longrightarrow> genesisKey X chain = []"
  by (simp add: genesisKey_def)

lemma readConfigData_unavailable:
  "View_begin X db = Inl e \<Longrightarrow> readConfigData X db k = []"
  by (simp add: readConfigData_def)

lemma readConfigData_Get:
  "View_begin X db = Inr tx \<Longrightarrow> readConfigData X db k = fst (Bucket_Get X tx (ConfigPrefix X) k)"
  by (simp add: readConfigData_def)

subsection \<open>The hex encoding\<close>

lemma length_hextable [simp]: "length hextable = 16"
  by (simp add: hextable_def)

lemma distinct_hextable: "distinct hextable"
  by (simp add: hextable_def)

lemma set_hextable: "set hextable = set ''0123456789abcdef''"
  by (simp add: hextable_def)

lemma nibbles_lt: "unat (b :: 8 word) div 16 < 16" "unat b mod 16 < 16"
  using unsigned_less[of b, where 'a=nat] by simp_all

lemma length_Bytes2Hex: "length (Bytes2Hex d) = 2 * length d"
  by (induction d) (simp_all add: Bytes2Hex_def)

lemma set_Bytes2Hex: "set (Bytes2Hex d) \<subseteq> set hextable"
  by (induction d) (simp_all add: Bytes2Hex_def nibbles_lt)

lemma Bytes2Hex_Cons:
  "Bytes2Hex (b # d) = hextable ! (unat b div 16) # hextable ! (unat b mod 16) # Bytes2Hex d"
  by (simp add: Bytes2Hex_def)

lemma Bytes2Hex_Nil [simp]: "Bytes2Hex [] = []"
  by (simp add: Bytes2Hex_def)

lemma byte_eq_nibbles:
  fixes a b :: "8 word"
  assumes "hextable ! (unat a div 16) = hextable ! (unat b div 16)"
      and "hextable ! (unat a mod 16) = hextable ! (unat b mod 16)"
  shows "a = b"
proof -
  have "unat a div 16 = unat b div 16"
    using assms(1) nibbles_lt(1)[of a] nibbles_lt(1)[of b]
    by (simp add: nth_eq_iff_index_eq[OF distinct_hextable])
  moreover have "unat a mod 16 = unat b mod 16"
    using assms(2) nibbles_lt(2)[of a] nibbles_lt(2)[of b]
    by (simp add: nth_eq_iff_index_eq[OF distinct_hextable])
  ultimately have "unat a = unat b"
    by (metis div_mult_mod_eq)
  then show ?thesis by (simp add: word_unat_eq_iff)
qed

lemma Bytes2Hex_inj: "Bytes2Hex d = Bytes2Hex d' \<Longrightarrow> d = d'"
proof (induction d arbitrary: d')
  case Nil
  then show ?case
    using length_Bytes2Hex[of d'] by (cases d') simp_all
next
  case (Cons b d)
  then obtain b' d'' where d': "d' = b' # d''"
    using length_Bytes2Hex[of d'] length_Bytes2Hex[of "b # d"] by (cases d') simp_all
  with Cons.prems have "b = b'" and "Bytes2Hex d = Bytes2Hex d''"
    by (auto simp: Bytes2Hex_Cons intro: byte_eq_nibbles)
  with Cons.IH d' show ?case by simp
qed

lemma Bytes2Hex_no_0x: "take 2 (Bytes2Hex d) \<noteq> ''0x''"
proof
  assume "take 2 (Bytes2Hex d) = ''0x''"
  then have "CHR ''x'' \<in> set (take 2 (Bytes2Hex d))" by simp
  then have "CHR ''x'' \<in> set (Bytes2Hex d)" by (rule in_set_takeD)
  with set_Bytes2Hex[of d] show False by (auto simp: hextable_def)
qed

section \<open>The claims\<close>

subsection \<open>C1: one receipt per transaction, or a stop at the first rejected one\<close>

text \<open>
  C1. For every block with \<open>n\<close> transactions, a replay either gets through the loop, and
  then the engine was called once per transaction in block order, it returned \<open>n\<close>
  receipts, and exactly these receipts, in this order, were handed to the finalization;
  or the engine rejected some transaction \<open>i\<close>, and then \<open>runBlock\<close> returns the error
  that carries the hash of transaction \<open>i\<close>, the engine was called for the transactions
  up to \<open>i\<close> only, \<open>i\<close> receipts exist, and neither the finalization nor the commit
  was called: the rejected call is the last one.
\<close>

theorem runBlock_receipts_or_first_rejection:
  fixes X :: "('ibs, 'wr, 'tx, 'rc, 'db, 'txn, 'cc, 'ctx) Externals"
    and ibs txnWriter blockWriter chainConfig bcb block
  defines "txs \<equiv> Transactions block"
      and "calls \<equiv> calls_of X ibs txnWriter blockWriter chainConfig bcb block"
      and "err \<equiv> fst (runBlock X ibs txnWriter blockWriter chainConfig bcb block)"
  shows
    "(\<exists>receipts fe rest.
        length receipts = length txs \<and>
        calls = dao_calls chainConfig block @ applied txs receipts
                  @ CallFinalize txs receipts fe # rest \<and>
        (rest = [] \<or> (\<exists>ce. rest = [CallCommit blockWriter ce])))
     \<or>
     (\<exists>i receipts cause.
        i < length txs \<and> length receipts = i \<and>
        err = Some (TxFailed (TxHash X (txs ! i)) cause) \<and>
        calls = dao_calls chainConfig block @ applied (take i txs) receipts
                  @ [CallApply (txs ! i) (Inl cause)])"
proof (cases rule: runBlock_outcomes[where X=X and ibs=ibs and tw=txnWriter and bw=blockWriter
          and cfg=chainConfig and bcb=bcb and block=block])
  case (rejected receipts cause)
  then have "length receipts < length txs \<and> length receipts = length receipts \<and>
      err = Some (TxFailed (TxHash X (txs ! length receipts)) cause) \<and>
      calls = dao_calls chainConfig block @ applied (take (length receipts) txs) receipts
                @ [CallApply (txs ! length receipts) (Inl cause)]"
    by (simp add: txs_def calls_def err_def)
  then show ?thesis by (intro disjI2 exI)
next
  case (finalize_failed receipts cause)
  then have "length receipts = length txs \<and>
      calls = dao_calls chainConfig block @ applied txs receipts
                @ CallFinalize txs receipts (Some cause) # [] \<and>
      ([] = ([] :: ('tx, 'rc, 'wr) call list) \<or>
       (\<exists>ce. ([] :: ('tx, 'rc, 'wr) call list) = [CallCommit blockWriter ce]))"
    by (simp add: txs_def calls_def)
  then show ?thesis by (intro disjI1 exI)
next
  case (commit_failed receipts cause)
  then have "length receipts = length txs \<and>
      calls = dao_calls chainConfig block @ applied txs receipts
                @ CallFinalize txs receipts None # [CallCommit blockWriter (Some cause)] \<and>
      ([CallCommit blockWriter (Some cause)] = [] \<or>
       (\<exists>ce. [CallCommit blockWriter (Some cause)] = [CallCommit blockWriter ce]))"
    by (simp add: txs_def calls_def)
  then show ?thesis by (intro disjI1 exI)
next
  case (completed receipts)
  then have "length receipts = length txs \<and>
      calls = dao_calls chainConfig block @ applied txs receipts
                @ CallFinalize txs receipts None # [CallCommit blockWriter None] \<and>
      ([CallCommit blockWriter None] = [] \<or>
       (\<exists>ce. [CallCommit blockWriter None] = [CallCommit blockWriter ce]))"
    by (simp add: txs_def calls_def)
  then show ?thesis by (intro disjI1 exI)
qed

text \<open>In the small world: block 2 runs to the end; in block 5 the second transaction is
  rejected, and the third is never tried.\<close>

theorem runBlock_receipts_or_first_rejection_witness:
  "calls_of demo (NewIntraBlockState demo demo_db 2) ChangeSetWriter_new ChangeSetWriter_new
      \<lparr>DAOForkSupport = True, DAOForkBlock = Some 2\<rparr> () (demo_block 2 [1, 2, 3])
     = [CallDAO, CallApply 1 (Inr 101), CallApply 2 (Inr 102), CallApply 3 (Inr 103),
        CallFinalize [1, 2, 3] [101, 102, 103] None,
        CallCommit ChangeSetWriter_new None]
   \<and> calls_of demo (NewIntraBlockState demo demo_db 5) ChangeSetWriter_new ChangeSetWriter_new
      \<lparr>DAOForkSupport = True, DAOForkBlock = Some 2\<rparr> () (demo_block 5 [1, 0, 3])
     = [CallApply 1 (Inr 101), CallApply 0 (Inl ''nonce too low'')]
   \<and> fst (runBlock demo (NewIntraBlockState demo demo_db 5) ChangeSetWriter_new ChangeSetWriter_new
      \<lparr>DAOForkSupport = True, DAOForkBlock = Some 2\<rparr> () (demo_block 5 [1, 0, 3]))
     = Some (TxFailed (TxHash demo 0) ''nonce too low'')"
proof -
  have run2: "calls_of demo (NewIntraBlockState demo demo_db 2) ChangeSetWriter_new ChangeSetWriter_new
      \<lparr>DAOForkSupport = True, DAOForkBlock = Some 2\<rparr> () (demo_block 2 [1, 2, 3])
     = [CallDAO, CallApply 1 (Inr 101), CallApply 2 (Inr 102), CallApply 3 (Inr 103),
        CallFinalize [1, 2, 3] [101, 102, 103] None,
        CallCommit ChangeSetWriter_new None]"
    by (simp add: demo_simps)
  have err5: "fst (runBlock demo (NewIntraBlockState demo demo_db 5) ChangeSetWriter_new ChangeSetWriter_new
      \<lparr>DAOForkSupport = True, DAOForkBlock = Some 2\<rparr> () (demo_block 5 [1, 0, 3]))
     = Some (TxFailed (TxHash demo 0) ''nonce too low'')"
    by (simp add: demo_simps)
  have run5: "calls_of demo (NewIntraBlockState demo demo_db 5) ChangeSetWriter_new ChangeSetWriter_new
      \<lparr>DAOForkSupport = True, DAOForkBlock = Some 2\<rparr> () (demo_block 5 [1, 0, 3])
     = [CallApply 1 (Inr 101), CallApply 0 (Inl ''nonce too low'')]"
    by (simp add: demo_simps)
  note runBlock_receipts_or_first_rejection[where X=demo and ibs="NewIntraBlockState demo demo_db 5"
      and txnWriter=ChangeSetWriter_new and blockWriter=ChangeSetWriter_new
      and chainConfig="\<lparr>DAOForkSupport = True, DAOForkBlock = Some 2\<rparr>" and bcb="()"
      and block="demo_block 5 [1, 0, 3]"]
  with run2 run5 err5 show ?thesis
    by - (intro conjI, assumption+)
qed

subsection \<open>C2: the write log of the recorder\<close>

text \<open>
  C2. In the recorder of a replay (created empty, then notified of the mutations \<open>ms\<close> in
  turn), and for each of its two stores: no key appears twice in the log; the keys stand in
  the order of their first writes; every entry holds the value of the last write to its
  key. A write to a key that is already in the log leaves the keys of the log as they are:
  no new entry, no reordering.
\<close>

theorem recorder_log_first_write_order_last_value:
  fixes ms :: "mutation list"
  defines "w \<equiv> recorded ms"
  shows "distinct (map Key (accountLog w))
       \<and> map Key (accountLog w) = first_writes (accountWrites ms)
       \<and> (\<forall>c \<in> set (accountLog w). last_write (accountWrites ms) (Key c) = Some (Value c))
       \<and> distinct (map Key (storageLog w))
       \<and> map Key (storageLog w) = first_writes (storageWrites ms)
       \<and> (\<forall>c \<in> set (storageLog w). last_write (storageWrites ms) (Key c) = Some (Value c))
       \<and> (\<forall>k v. k \<in> set (map Key (accountLog w)) \<longrightarrow>
             map Key (accountLog (notify w (AccountMutation k v))) = map Key (accountLog w))
       \<and> (\<forall>k v. k \<in> set (map Key (storageLog w)) \<longrightarrow>
             map Key (storageLog (notify w (StorageMutation k v))) = map Key (storageLog w))"
proof -
  have a: "log_ok (accountWrites ms) (accountLog w)" and s: "log_ok (storageWrites ms) (storageLog w)"
    using recorded_log_ok[of ms] by (simp_all add: w_def)
  have "\<forall>k v. k \<in> set (map Key (accountLog w)) \<longrightarrow>
             map Key (accountLog (notify w (AccountMutation k v))) = map Key (accountLog w)"
    by (simp add: map_Key_upsert)
  moreover have "\<forall>k v. k \<in> set (map Key (storageLog w)) \<longrightarrow>
             map Key (storageLog (notify w (StorageMutation k v))) = map Key (storageLog w)"
    by (simp add: map_Key_upsert)
  ultimately show ?thesis
    using a s unfolding log_ok_def by blast
qed

text \<open>Six notifications: account \<open>01\<close> and account \<open>02\<close> are written twice, and keep the
  place of their first write and the value of their last.\<close>

theorem recorder_log_first_write_order_last_value_witness:
  "accountLog (recorded [AccountMutation [1] [10], StorageMutation [1, 0] [7], AccountMutation [2] [20],
                         AccountMutation [1] [11], AccountMutation [3] [30], AccountMutation [2] [21]])
     = [\<lparr>Key = [1], Value = [11]\<rparr>, \<lparr>Key = [2], Value = [21]\<rparr>, \<lparr>Key = [3], Value = [30]\<rparr>]
   \<and> first_writes [([1], [10]), ([2], [20]), ([1], [11]), ([3], [30]), ([2], [21])] = [[1], [2], [3]]
   \<and> last_write [([1], [10]), ([2], [20]), ([1], [11]), ([3], [30]), ([2], [21])] [2] = Some [21]
   \<and> map Key (accountLog (recorded [AccountMutation [1] [10], StorageMutation [1, 0] [7],
                         AccountMutation [2] [20], AccountMutation [1] [11], AccountMutation [3] [30],
                         AccountMutation [2] [21]]))
     = first_writes [([1], [10]), ([2], [20]), ([1], [11]), ([3], [30]), ([2], [21])]"
proof -
  let ?ms = "[AccountMutation [1] [10], StorageMutation [1, 0] [7], AccountMutation [2] [20],
              AccountMutation [1] [11], AccountMutation [3] [30], AccountMutation [2] [21]]"
  have log: "accountLog (recorded ?ms)
     = [\<lparr>Key = [1], Value = [11]\<rparr>, \<lparr>Key = [2], Value = [21]\<rparr>, \<lparr>Key = [3], Value = [30]\<rparr>]"
    by (simp add: recorded_def ChangeSetWriter_new_def)
  have ws: "accountWrites ?ms = [([1], [10]), ([2], [20]), ([1], [11]), ([3], [30]), ([2], [21])]"
    by simp
  have fw: "first_writes [([1], [10]), ([2], [20]), ([1], [11]), ([3], [30]), ([2], [21])] = [[1::8 word], [2], [3]]"
    by (simp add: first_writes_def upt_rec)
  have lw: "last_write [([1], [10]), ([2], [20]), ([1], [11]), ([3], [30]), ([2], [21])] [2::8 word] = Some [21::8 word]"
    by (simp add: last_write_def)
  from recorder_log_first_write_order_last_value[of ?ms]
  have "map Key (accountLog (recorded ?ms)) = first_writes (accountWrites ?ms)"
    by blast
  then have "map Key (accountLog (recorded ?ms))
      = first_writes [([1], [10]), ([2], [20]), ([1], [11]), ([3], [30]), ([2], [21])]"
    unfolding ws .
  with log fw lw show ?thesis
    by blast
qed

subsection \<open>C3: a height that is not a non-negative integer\<close>

text \<open>
  C3 asks that a negative height string be rejected as invalid input, before any block
  lookup. \<open>Retrace\<close> parses the height with \<open>strconv.Atoi\<close>, which accepts a sign, and
  converts the result with \<open>uint64(bn)\<close>, with no test for a negative value. So the
  string \<open>-1\<close> parses to \<open>-1\<close>, wraps to \<open>18446744073709551615\<close>, and the block of
  that height is looked up; the store of the small world holds such a block, and it is
  replayed with a nil error.
\<close>

theorem Retrace_negative_height_replayed:
  "Atoi ''-1'' = Inr (- 1)
   \<and> (word_of_int (- 1) :: 64 word) = 18446744073709551615
   \<and> GetBlockByNumber demo demo_db (word_of_int (- 1))
       = (Some (demo_block 18446744073709551615 [4]), None)
   \<and> Retrace demo ''-1'' ''mainnet'' demo_db =
       Returns (\<lparr>Storage = \<lparr>Reads = [''0400''], Writes = [''0400'']\<rparr>,
                 Account = \<lparr>Reads = [''04'', ''ee''], Writes = [''04'', ''ee'', ''c0'']\<rparr>\<rparr>, None)"
  by (simp add: demo_simps)

subsection \<open>C4: a configuration that cannot be resolved\<close>

text \<open>
  C4, as the code has it. \<open>ReadChainConfig\<close> has no error result, and the errors of
  \<open>View\<close>, of \<open>Get\<close> and of \<open>json.Unmarshal\<close> are dropped: whatever the decoder
  answers on the data that was read, error or not, the function returns the zero-initialised
  configuration as the decoder left it. That is the zero value in the three cases with no
  data to decode, as long as the decoder writes nothing when it is given no data: an
  unknown chain name, whose nil key has no entry in the store; a store that cannot be
  read; a store with no entry under the key of the chain. The replay goes on with the
  returned configuration: once the height has parsed and the block is found, \<open>runBlock\<close>
  is run with it, and \<open>Retrace\<close> returns the error of that run, nil or not; the one other
  way out is the panic on a nil change set after a run that succeeded. No outcome is an
  error about the configuration.
\<close>

theorem ReadChainConfig_returns_what_the_decoder_left:
  fixes X :: "('ibs, 'wr, 'tx, 'rc, 'db, 'txn, 'cc, 'ctx) Externals"
    and remoteDB chain
  defines "data \<equiv> readConfigData X remoteDB (genesisKey X chain)"
      and "config \<equiv> ReadChainConfig X remoteDB chain"
  shows "(\<forall>e left. json_Unmarshal X data ChainConfig_zero = (e, left) \<longrightarrow> config = left)
       \<and> (chain \<notin> {''mainnet'', ''testnet'', ''rinkeby'', ''goerli''} \<and>
          (\<forall>tx. View_begin X remoteDB = Inr tx \<longrightarrow> fst (Bucket_Get X tx (ConfigPrefix X) []) = []) \<and>
          snd (json_Unmarshal X [] ChainConfig_zero) = ChainConfig_zero
          \<longrightarrow> config = ChainConfig_zero)
       \<and> ((\<exists>e. View_begin X remoteDB = Inl e) \<and>
          snd (json_Unmarshal X [] ChainConfig_zero) = ChainConfig_zero
          \<longrightarrow> config = ChainConfig_zero)
       \<and> ((\<exists>tx. View_begin X remoteDB = Inr tx \<and>
                fst (Bucket_Get X tx (ConfigPrefix X) (genesisKey X chain)) = []) \<and>
          snd (json_Unmarshal X [] ChainConfig_zero) = ChainConfig_zero
          \<longrightarrow> config = ChainConfig_zero)
       \<and> (\<forall>blockNumber bn blk err ibs' noOpWriter' writer'.
             Atoi blockNumber = Inr bn \<and>
             GetBlockByNumber X remoteDB (word_of_int bn) = (Some blk, None) \<and>
             runBlock X (NewIntraBlockState X remoteDB (word_of_int bn)) (NewNoopWriter X)
               (NewChangeSetWriter X) config (NewRemoteContext X remoteDB) blk
               = (err, ibs', noOpWriter', writer') \<longrightarrow>
             (\<exists>response. Retrace X blockNumber chain remoteDB = Returns (response, err))
             \<or> (Retrace X blockNumber chain remoteDB = Panics \<and> err = None \<and>
                 (fst (GetAccountChanges X writer') = None
                    \<or> fst (GetStorageChanges X writer') = None)))"
proof (intro conjI allI impI)
  fix e left
  assume "json_Unmarshal X data ChainConfig_zero = (e, left)"
  then show "config = left"
    by (simp add: config_def ReadChainConfig_def data_def)
next
  assume a: "chain \<notin> {''mainnet'', ''testnet'', ''rinkeby'', ''goerli''} \<and>
          (\<forall>tx. View_begin X remoteDB = Inr tx \<longrightarrow> fst (Bucket_Get X tx (ConfigPrefix X) []) = []) \<and>
          snd (json_Unmarshal X [] ChainConfig_zero) = ChainConfig_zero"
  then have k: "genesisKey X chain = []"
    by (simp add: genesisKey_unknown)
  from a have "readConfigData X remoteDB [] = []"
    by (cases "View_begin X remoteDB") (simp_all add: readConfigData_def)
  with a k show "config = ChainConfig_zero"
    by (simp add: config_def ReadChainConfig_def)
next
  assume a: "(\<exists>e. View_begin X remoteDB = Inl e) \<and>
          snd (json_Unmarshal X [] ChainConfig_zero) = ChainConfig_zero"
  then have "readConfigData X remoteDB (genesisKey X chain) = []"
    by (auto simp: readConfigData_unavailable)
  with a show "config = ChainConfig_zero"
    by (simp add: config_def ReadChainConfig_def)
next
  assume a: "(\<exists>tx. View_begin X remoteDB = Inr tx \<and>
                fst (Bucket_Get X tx (ConfigPrefix X) (genesisKey X chain)) = []) \<and>
          snd (json_Unmarshal X [] ChainConfig_zero) = ChainConfig_zero"
  then have "readConfigData X remoteDB (genesisKey X chain) = []"
    by (auto simp: readConfigData_Get)
  with a show "config = ChainConfig_zero"
    by (simp add: config_def ReadChainConfig_def)
next
  fix blockNumber bn blk err ibs' noOpWriter' writer'
  assume a: "Atoi blockNumber = Inr bn \<and>
             GetBlockByNumber X remoteDB (word_of_int bn) = (Some blk, None) \<and>
             runBlock X (NewIntraBlockState X remoteDB (word_of_int bn)) (NewNoopWriter X)
               (NewChangeSetWriter X) config (NewRemoteContext X remoteDB) blk
               = (err, ibs', noOpWriter', writer')"
  then have p: "Atoi blockNumber = Inr bn"
    and l: "GetBlockByNumber X remoteDB (word_of_int bn) = (Some blk, None)"
    and r: "runBlock X (NewIntraBlockState X remoteDB (word_of_int bn)) (NewNoopWriter X)
               (NewChangeSetWriter X) (ReadChainConfig X remoteDB chain)
               (NewRemoteContext X remoteDB) blk
               = (err, ibs', noOpWriter', writer')"
    by (simp_all add: config_def)
  show "(\<exists>response. Retrace X blockNumber chain remoteDB = Returns (response, err))
             \<or> (Retrace X blockNumber chain remoteDB = Panics \<and> err = None \<and>
                 (fst (GetAccountChanges X writer') = None
                    \<or> fst (GetStorageChanges X writer') = None))"
  proof (cases err)
    case (Some e)
    with r have "fst (runBlock X (NewIntraBlockState X remoteDB (word_of_int bn)) (NewNoopWriter X)
               (NewChangeSetWriter X) (ReadChainConfig X remoteDB chain)
               (NewRemoteContext X remoteDB) blk) = Some e"
      by simp
    from Retrace_runBlock_error[OF p l this] Some show ?thesis
      by simp
  next
    case None
    with r have r': "runBlock X (NewIntraBlockState X remoteDB (word_of_int bn)) (NewNoopWriter X)
               (NewChangeSetWriter X) (ReadChainConfig X remoteDB chain)
               (NewRemoteContext X remoteDB) blk
               = (None, ibs', noOpWriter', writer')"
      by simp
    obtain ac ae where A: "GetAccountChanges X writer' = (ac, ae)"
      by (cases "GetAccountChanges X writer'")
    obtain sc se where S: "GetStorageChanges X writer' = (sc, se)"
      by (cases "GetStorageChanges X writer'")
    show ?thesis
    proof (cases ac)
      case None
      with A have A': "GetAccountChanges X writer' = (None, ae)" by simp
      from Retrace_nil_account_changes[OF p l r' A'] A' \<open>err = None\<close> show ?thesis
        by simp
    next
      case (Some a)
      with A have A': "GetAccountChanges X writer' = (Some a, ae)" by simp
      show ?thesis
      proof (cases sc)
        case None
        with S have S': "GetStorageChanges X writer' = (None, se)" by simp
        from Retrace_nil_storage_changes[OF p l r' A' S'] S' \<open>err = None\<close> show ?thesis
          by simp
      next
        case (Some s)
        with S have S': "GetStorageChanges X writer' = (Some s, se)" by simp
        from Retrace_runBlock_ok[OF p l r' A' S'] \<open>err = None\<close> show ?thesis
          by simp
      qed
    qed
  qed
qed

text \<open>In the small world the decoder rejects empty data and writes nothing. The chain
  \<open>nochain\<close> is unknown and the store has nothing under the nil key; the chain
  \<open>rinkeby\<close> is known and the store has no entry for it; the store that is off line
  cannot be read. All three give the zero configuration, and the replay of block 7 for the
  unknown chain runs with it and succeeds.\<close>

theorem ReadChainConfig_returns_what_the_decoder_left_witness:
  "ReadChainConfig demo demo_db ''nochain'' = ChainConfig_zero
   \<and> ReadChainConfig demo demo_db ''rinkeby'' = ChainConfig_zero
   \<and> ReadChainConfig demo (demo_db\<lparr>demo_online := False\<rparr>) ''mainnet'' = ChainConfig_zero
   \<and> ReadChainConfig demo demo_db ''mainnet''
       = \<lparr>DAOForkSupport = True, DAOForkBlock = Some 2\<rparr>
   \<and> Retrace demo ''7'' ''nochain'' demo_db =
       Returns (\<lparr>Storage = \<lparr>Reads = [], Writes = []\<rparr>,
                 Account = \<lparr>Reads = [], Writes = [''c0'']\<rparr>\<rparr>, None)"
proof -
  have 1: "ReadChainConfig demo demo_db ''nochain'' = ChainConfig_zero"
    by (rule ReadChainConfig_returns_what_the_decoder_left[where X=demo and remoteDB=demo_db
          and chain="''nochain''", THEN conjunct2, THEN conjunct1, rule_format])
       (simp add: demo_simps)
  have 2: "ReadChainConfig demo demo_db ''rinkeby'' = ChainConfig_zero"
    by (rule ReadChainConfig_returns_what_the_decoder_left[where X=demo and remoteDB=demo_db
          and chain="''rinkeby''", THEN conjunct2, THEN conjunct2, THEN conjunct2, THEN conjunct1,
          rule_format])
       (simp add: demo_simps)
  have 3: "ReadChainConfig demo (demo_db\<lparr>demo_online := False\<rparr>) ''mainnet'' = ChainConfig_zero"
    by (rule ReadChainConfig_returns_what_the_decoder_left[where X=demo
          and remoteDB="demo_db\<lparr>demo_online := False\<rparr>"
          and chain="''mainnet''", THEN conjunct2, THEN conjunct2, THEN conjunct1, rule_format])
       (simp add: demo_simps)
  have dec: "json_Unmarshal demo (readConfigData demo demo_db (genesisKey demo ''mainnet''))
               ChainConfig_zero
             = (None, \<lparr>DAOForkSupport = True, DAOForkBlock = Some 2\<rparr>)"
    by (simp add: demo_simps)
  have 4: "ReadChainConfig demo demo_db ''mainnet'' = \<lparr>DAOForkSupport = True, DAOForkBlock = Some 2\<rparr>"
    by (rule ReadChainConfig_returns_what_the_decoder_left[where X=demo and remoteDB=demo_db
          and chain="''mainnet''", THEN conjunct1, rule_format, OF dec])
  have atoi: "Atoi ''7'' = Inr 7"
    by (simp add: Atoi_def isDigit_def)
  have blk: "GetBlockByNumber demo demo_db (word_of_int 7) = (Some (demo_block 7 []), None)"
    by (simp add: demo_simps)
  have run: "runBlock demo (NewIntraBlockState demo demo_db (word_of_int 7))
               (NewNoopWriter demo) (NewChangeSetWriter demo)
               (ReadChainConfig demo demo_db ''nochain'')
               (NewRemoteContext demo demo_db) (demo_block 7 [])
             = (None, \<lparr>ov_pending = [], ov_accountReads = [], ov_storageReads = []\<rparr>,
                ChangeSetWriter_new, recorded [AccountMutation [0xc0] [2]])"
    by (simp add: demo_simps recorded_def)
  have acc: "fst (GetAccountChanges demo (recorded [AccountMutation [0xc0] [2]])) \<noteq> None"
    by (simp add: demo_simps recorded_def)
  have "(\<exists>response. Retrace demo ''7'' ''nochain'' demo_db = Returns (response, None))
        \<or> (Retrace demo ''7'' ''nochain'' demo_db = Panics \<and> (None :: error option) = None \<and>
            (fst (GetAccountChanges demo (recorded [AccountMutation [0xc0] [2]])) = None
               \<or> fst (GetStorageChanges demo (recorded [AccountMutation [0xc0] [2]])) = None))"
    by (rule ReadChainConfig_returns_what_the_decoder_left[where X=demo and remoteDB=demo_db
          and chain="''nochain''", THEN conjunct2, THEN conjunct2, THEN conjunct2, THEN conjunct2,
          rule_format])
       (rule conjI, rule atoi, rule conjI, rule blk, rule run)
  moreover have 5: "Retrace demo ''7'' ''nochain'' demo_db =
       Returns (\<lparr>Storage = \<lparr>Reads = [], Writes = []\<rparr>,
                 Account = \<lparr>Reads = [], Writes = [''c0'']\<rparr>\<rparr>, None)"
    by (simp add: demo_simps)
  ultimately show ?thesis
    using 1 2 3 4 by blast
qed

text \<open>
  C4 as stated promises the zero value for undecodable data as well. The goerli entry of
  the small world cannot be decoded, the decoder returns an error, and the configuration
  that \<open>ReadChainConfig\<close> returns has \<open>DAOForkSupport\<close> set.
\<close>

theorem ReadChainConfig_partly_decoded_counterexample:
  "fst (json_Unmarshal demo (readConfigData demo demo_db (genesisKey demo ''goerli'')) ChainConfig_zero)
      \<noteq> None
   \<and> ReadChainConfig demo demo_db ''goerli'' \<noteq> ChainConfig_zero"
  by (simp add: demo_simps)

subsection \<open>C5: the one-time protocol transition\<close>

text \<open>
  C5, as the code has it. The DAO hard fork is applied if and only if the configuration
  supports it (\<open>DAOForkSupport\<close>) and the configured fork height is set and equal to the
  block's height; when it is applied, it is the first call of the run, before any
  transaction, and it is applied once. Where the flag is off, or the height differs or is
  not set, it is skipped.
\<close>

theorem dao_transition_iff_supported_and_due:
  fixes X :: "('ibs, 'wr, 'tx, 'rc, 'db, 'txn, 'cc, 'ctx) Externals"
    and ibs txnWriter blockWriter chainConfig bcb block
  defines "calls \<equiv> calls_of X ibs txnWriter blockWriter chainConfig bcb block"
  shows "(CallDAO \<in> set calls \<longleftrightarrow>
            DAOForkSupport chainConfig \<and>
            DAOForkBlock chainConfig = Some (int (Number (Header block))))
       \<and> (CallDAO \<in> set calls \<longrightarrow> (\<exists>rest. calls = CallDAO # rest \<and> CallDAO \<notin> set rest))"
proof -
  obtain rest where rest: "calls = dao_calls chainConfig block @ rest" "CallDAO \<notin> set rest"
  proof (cases rule: runBlock_outcomes[where X=X and ibs=ibs and tw=txnWriter and bw=blockWriter
          and cfg=chainConfig and bcb=bcb and block=block])
    case (rejected receipts cause)
    then show ?thesis by (intro that[of "applied (take (length receipts) (Transactions block)) receipts
           @ [CallApply (Transactions block ! length receipts) (Inl cause)]"]) (simp_all add: calls_def)
  next
    case (finalize_failed receipts cause)
    then show ?thesis by (intro that[of "applied (Transactions block) receipts
           @ [CallFinalize (Transactions block) receipts (Some cause)]"]) (simp_all add: calls_def)
  next
    case (commit_failed receipts cause)
    then show ?thesis by (intro that[of "applied (Transactions block) receipts
           @ [CallFinalize (Transactions block) receipts None, CallCommit blockWriter (Some cause)]"])
        (simp_all add: calls_def)
  next
    case (completed receipts)
    then show ?thesis by (intro that[of "applied (Transactions block) receipts
           @ [CallFinalize (Transactions block) receipts None, CallCommit blockWriter None]"])
        (simp_all add: calls_def)
  qed
  then have "CallDAO \<in> set calls \<longleftrightarrow> daoForkDue chainConfig block"
    by (simp add: set_dao_calls)
  moreover have "\<exists>r. calls = CallDAO # r \<and> CallDAO \<notin> set r" if "daoForkDue chainConfig block"
    using rest that by (simp add: dao_calls_def)
  ultimately show ?thesis
    by (simp add: daoForkDue_iff)
qed

text \<open>In the small world the mainnet configuration supports the fork at height 2: block 2
  starts with it, block 5 runs without it.\<close>

theorem dao_transition_iff_supported_and_due_witness:
  "DAOForkSupport (ReadChainConfig demo demo_db ''mainnet'')
   \<and> DAOForkBlock (ReadChainConfig demo demo_db ''mainnet'') = Some (int (Number (Header (demo_block 2 [1, 2, 3]))))
   \<and> hd (calls_of demo (NewIntraBlockState demo demo_db 2) ChangeSetWriter_new ChangeSetWriter_new
        (ReadChainConfig demo demo_db ''mainnet'') () (demo_block 2 [1, 2, 3])) = CallDAO
   \<and> CallDAO \<notin> set (calls_of demo (NewIntraBlockState demo demo_db 5) ChangeSetWriter_new
        ChangeSetWriter_new (ReadChainConfig demo demo_db ''mainnet'') () (demo_block 5 [1, 0, 3]))"
proof -
  have cfg: "ReadChainConfig demo demo_db ''mainnet'' = \<lparr>DAOForkSupport = True, DAOForkBlock = Some 2\<rparr>"
    by (simp add: demo_simps)
  have n2: "int (Number (Header (demo_block 2 [1, 2, 3]))) = 2"
    and n5: "int (Number (Header (demo_block 5 [1, 0, 3]))) = 5"
    by (simp_all add: demo_block_def)
  note at2 = dao_transition_iff_supported_and_due[where X=demo and ibs="NewIntraBlockState demo demo_db 2"
      and txnWriter=ChangeSetWriter_new and blockWriter=ChangeSetWriter_new
      and chainConfig="ReadChainConfig demo demo_db ''mainnet''" and bcb="()"
      and block="demo_block 2 [1, 2, 3]"]
  note at5 = dao_transition_iff_supported_and_due[where X=demo and ibs="NewIntraBlockState demo demo_db 5"
      and txnWriter=ChangeSetWriter_new and blockWriter=ChangeSetWriter_new
      and chainConfig="ReadChainConfig demo demo_db ''mainnet''" and bcb="()"
      and block="demo_block 5 [1, 0, 3]"]
  from at2 have "hd (calls_of demo (NewIntraBlockState demo demo_db 2) ChangeSetWriter_new ChangeSetWriter_new
        (ReadChainConfig demo demo_db ''mainnet'') () (demo_block 2 [1, 2, 3])) = CallDAO"
    unfolding cfg n2 by auto
  moreover from at5 have "CallDAO \<notin> set (calls_of demo (NewIntraBlockState demo demo_db 5) ChangeSetWriter_new
        ChangeSetWriter_new (ReadChainConfig demo demo_db ''mainnet'') () (demo_block 5 [1, 0, 3]))"
    unfolding cfg n5 by simp
  ultimately show ?thesis
    by (simp add: cfg demo_block_def)
qed

text \<open>
  C5 as stated makes the height alone decide. The testnet configuration of the small world
  sets the fork height to 2 and switches \<open>DAOForkSupport\<close> off: the height of block 2
  matches the configured height, and the transition is skipped.
\<close>

theorem dao_height_match_counterexample:
  "DAOForkBlock (ReadChainConfig demo demo_db ''testnet'')
     = Some (int (Number (Header (demo_block 2 [1, 2, 3]))))
   \<and> CallDAO \<notin> set (calls_of demo (NewIntraBlockState demo demo_db 2) ChangeSetWriter_new
        ChangeSetWriter_new (ReadChainConfig demo demo_db ''testnet'') () (demo_block 2 [1, 2, 3]))"
  by (simp add: demo_simps)

subsection \<open>C6: a failing replay returns the zero response\<close>

text \<open>
  C6. Whichever phase fails, \<open>Retrace\<close> returns the error together with the zero-valued
  response, with no reads and no writes: when the height does not parse; when the block
  lookup returns an error; when \<open>runBlock\<close> returns an error, which is then the error
  of a transaction, of the finalization or of the commit. And whenever \<open>Retrace\<close>
  returns an error at all, the response next to it is the zero value.
\<close>

theorem Retrace_failure_returns_zero_response:
  "(\<forall>e. Atoi blockNumber = Inl e \<longrightarrow>
        Retrace X blockNumber chain remoteDB = Returns (RetraceResponse_zero, Some e))
   \<and> (\<forall>bn b m. Atoi blockNumber = Inr bn \<and>
          GetBlockByNumber X remoteDB (word_of_int bn) = (b, Some m) \<longrightarrow>
        Retrace X blockNumber chain remoteDB = Returns (RetraceResponse_zero, Some (StoreError m)))
   \<and> (\<forall>bn blk e. Atoi blockNumber = Inr bn \<and>
          GetBlockByNumber X remoteDB (word_of_int bn) = (Some blk, None) \<and>
          fst (runBlock X (NewIntraBlockState X remoteDB (word_of_int bn)) (NewNoopWriter X)
                 (NewChangeSetWriter X) (ReadChainConfig X remoteDB chain)
                 (NewRemoteContext X remoteDB) blk) = Some e \<longrightarrow>
        Retrace X blockNumber chain remoteDB = Returns (RetraceResponse_zero, Some e) \<and>
        ((\<exists>h c. e = TxFailed h c) \<or> (\<exists>c. e = FinalizeFailed (NumberU64 blk) c)
           \<or> (\<exists>c. e = CommitFailed (NumberU64 blk) c)))
   \<and> (\<forall>response e. Retrace X blockNumber chain remoteDB = Returns (response, Some e) \<longrightarrow>
        response = RetraceResponse_zero)"
proof (intro conjI allI impI)
  fix e assume "Atoi blockNumber = Inl e"
  then show "Retrace X blockNumber chain remoteDB = Returns (RetraceResponse_zero, Some e)"
    by (rule Retrace_Atoi_error)
next
  fix bn b m
  assume "Atoi blockNumber = Inr bn \<and> GetBlockByNumber X remoteDB (word_of_int bn) = (b, Some m)"
  then show "Retrace X blockNumber chain remoteDB = Returns (RetraceResponse_zero, Some (StoreError m))"
    by (blast intro: Retrace_lookup_error)
next
  fix bn blk e
  assume a: "Atoi blockNumber = Inr bn \<and>
          GetBlockByNumber X remoteDB (word_of_int bn) = (Some blk, None) \<and>
          fst (runBlock X (NewIntraBlockState X remoteDB (word_of_int bn)) (NewNoopWriter X)
                 (NewChangeSetWriter X) (ReadChainConfig X remoteDB chain)
                 (NewRemoteContext X remoteDB) blk) = Some e"
  then show "Retrace X blockNumber chain remoteDB = Returns (RetraceResponse_zero, Some e)"
    by (blast intro: Retrace_runBlock_error)
  from a have "fst (runBlock X (NewIntraBlockState X remoteDB (word_of_int bn)) (NewNoopWriter X)
                 (NewChangeSetWriter X) (ReadChainConfig X remoteDB chain)
                 (NewRemoteContext X remoteDB) blk) = Some e"
    by simp
  then show "(\<exists>h c. e = TxFailed h c) \<or> (\<exists>c. e = FinalizeFailed (NumberU64 blk) c)
           \<or> (\<exists>c. e = CommitFailed (NumberU64 blk) c)"
    by (rule runBlock_error_kinds)
next
  fix response e
  assume "Retrace X blockNumber chain remoteDB = Returns (response, Some e)"
  then show "response = RetraceResponse_zero"
    by (cases rule: Retrace_outcomes[where X=X and blockNumber=blockNumber and chain=chain
          and remoteDB=remoteDB]) simp_all
qed

text \<open>One failing replay per phase in the small world; block 5 fails in its second
  transaction, after the first one was applied, and nothing of the first is reported.\<close>

theorem Retrace_failure_returns_zero_response_witness:
  "Retrace demo ''0x10'' ''mainnet'' demo_db
      = Returns (RetraceResponse_zero, Some (NumError ''0x10'' ErrSyntax))
   \<and> Retrace demo ''8'' ''mainnet'' demo_db
      = Returns (RetraceResponse_zero, Some (StoreError ''block not found''))
   \<and> Retrace demo ''5'' ''mainnet'' demo_db
      = Returns (RetraceResponse_zero, Some (TxFailed (TxHash demo 0) ''nonce too low''))
   \<and> Retrace demo_badFinalize ''2'' ''mainnet'' demo_db
      = Returns (RetraceResponse_zero, Some (FinalizeFailed 2 ''invalid uncle''))
   \<and> Retrace demo_badCommit ''2'' ''mainnet'' demo_db
      = Returns (RetraceResponse_zero, Some (CommitFailed 2 ''write failed''))"
proof -
  have atoi: "Atoi ''0x10'' = Inl (NumError ''0x10'' ErrSyntax)"
    by (simp add: Atoi_def isDigit_def)
  from Retrace_failure_returns_zero_response[where X=demo and blockNumber="''0x10''"
      and chain="''mainnet''" and remoteDB=demo_db] atoi
  have 1: "Retrace demo ''0x10'' ''mainnet'' demo_db
      = Returns (RetraceResponse_zero, Some (NumError ''0x10'' ErrSyntax))"
    by blast
  have 2: "Retrace demo ''8'' ''mainnet'' demo_db
      = Returns (RetraceResponse_zero, Some (StoreError ''block not found''))"
    by (simp add: demo_simps)
  have 3: "Retrace demo ''5'' ''mainnet'' demo_db
      = Returns (RetraceResponse_zero, Some (TxFailed (TxHash demo 0) ''nonce too low''))"
    by (simp add: demo_simps)
  have 4: "Retrace demo_badFinalize ''2'' ''mainnet'' demo_db
      = Returns (RetraceResponse_zero, Some (FinalizeFailed 2 ''invalid uncle''))"
    by (simp add: demo_simps)
  have 5: "Retrace demo_badCommit ''2'' ''mainnet'' demo_db
      = Returns (RetraceResponse_zero, Some (CommitFailed 2 ''write failed''))"
    by (simp add: demo_simps)
  from 1 2 3 4 5 show ?thesis by blast
qed

subsection \<open>C7: the response of a successful replay\<close>

text \<open>
  C7. When \<open>Retrace\<close> returns no error, the height parsed, the block was found,
  \<open>runBlock\<close> succeeded and both accessors of the block writer handed back a change set,
  and the response holds four sequences of strings: the account
  writes are the keys of the account change set of the block writer, the account reads are
  the keys the reader served for accounts, and the same for storage; each sequence is in
  the order of the change set or of the read log, one string per key. Each string is the
  hexadecimal encoding of its key: two characters per byte, only the characters
  \<open>0\<close> to \<open>9\<close> and \<open>a\<close> to \<open>f\<close>, no \<open>0x\<close> in front, and different keys give
  different strings.
\<close>

theorem Retrace_response_hex_keys_in_order:
  assumes "Retrace X blockNumber chain remoteDB = Returns (output, None)"
  shows "(\<exists>bn blk ibs' noOpWriter' writer' accountChanges storageChanges.
       Atoi blockNumber = Inr bn \<and>
       GetBlockByNumber X remoteDB (word_of_int bn) = (Some blk, None) \<and>
       runBlock X (NewIntraBlockState X remoteDB (word_of_int bn)) (NewNoopWriter X)
          (NewChangeSetWriter X) (ReadChainConfig X remoteDB chain) (NewRemoteContext X remoteDB) blk
         = (None, ibs', noOpWriter', writer') \<and>
       fst (GetAccountChanges X writer') = Some accountChanges \<and>
       fst (GetStorageChanges X writer') = Some storageChanges \<and>
       Writes (Account output)
         = map (\<lambda>ch. Bytes2Hex (Key ch)) (Changes accountChanges) \<and>
       Reads (Account output) = map Bytes2Hex (GetAccountReads X ibs') \<and>
       Writes (Storage output)
         = map (\<lambda>ch. Bytes2Hex (Key ch)) (Changes storageChanges) \<and>
       Reads (Storage output) = map Bytes2Hex (GetStorageReads X ibs'))
     \<and> (\<forall>key. length (Bytes2Hex key) = 2 * length key \<and>
           set (Bytes2Hex key) \<subseteq> set ''0123456789abcdef'' \<and>
           take 2 (Bytes2Hex key) \<noteq> ''0x'' \<and>
           (\<forall>key'. Bytes2Hex key' = Bytes2Hex key \<longrightarrow> key' = key))"
proof (rule conjI)
  show "\<exists>bn blk ibs' noOpWriter' writer' accountChanges storageChanges.
       Atoi blockNumber = Inr bn \<and>
       GetBlockByNumber X remoteDB (word_of_int bn) = (Some blk, None) \<and>
       runBlock X (NewIntraBlockState X remoteDB (word_of_int bn)) (NewNoopWriter X)
          (NewChangeSetWriter X) (ReadChainConfig X remoteDB chain) (NewRemoteContext X remoteDB) blk
         = (None, ibs', noOpWriter', writer') \<and>
       fst (GetAccountChanges X writer') = Some accountChanges \<and>
       fst (GetStorageChanges X writer') = Some storageChanges \<and>
       Writes (Account output)
         = map (\<lambda>ch. Bytes2Hex (Key ch)) (Changes accountChanges) \<and>
       Reads (Account output) = map Bytes2Hex (GetAccountReads X ibs') \<and>
       Writes (Storage output)
         = map (\<lambda>ch. Bytes2Hex (Key ch)) (Changes storageChanges) \<and>
       Reads (Storage output) = map Bytes2Hex (GetStorageReads X ibs')"
  proof (cases rule: Retrace_outcomes[where X=X and blockNumber=blockNumber and chain=chain
          and remoteDB=remoteDB])
    case (replayed bn blk ibs' noOpWriter' writer' ac accountErr sc storageErr)
    with assms have "output =
           \<lparr>Storage = \<lparr>Reads = map Bytes2Hex (GetStorageReads X ibs'),
                         Writes = map (\<lambda>ch. Bytes2Hex (Key ch)) (Changes sc)\<rparr>,
             Account = \<lparr>Reads = map Bytes2Hex (GetAccountReads X ibs'),
                         Writes = map (\<lambda>ch. Bytes2Hex (Key ch)) (Changes ac)\<rparr>\<rparr>"
      by simp
    with replayed(1,2,3,4,5) show ?thesis
      by (intro exI[of _ bn] exI[of _ blk] exI[of _ ibs'] exI[of _ noOpWriter'] exI[of _ writer']
            exI[of _ ac] exI[of _ sc]) simp
  qed (use assms in simp_all)
  show "\<forall>key. length (Bytes2Hex key) = 2 * length key \<and>
           set (Bytes2Hex key) \<subseteq> set ''0123456789abcdef'' \<and>
           take 2 (Bytes2Hex key) \<noteq> ''0x'' \<and>
           (\<forall>key'. Bytes2Hex key' = Bytes2Hex key \<longrightarrow> key' = key)"
    using length_Bytes2Hex set_Bytes2Hex Bytes2Hex_no_0x Bytes2Hex_inj
    unfolding set_hextable by blast
qed

text \<open>Block 2 in the small world: the shared account \<open>ee\<close> is read three times and
  reported three times among the reads, written three times and reported once among the
  writes, at the place of its first write.\<close>

theorem Retrace_response_hex_keys_in_order_witness:
  "Retrace demo ''2'' ''mainnet'' demo_db =
     Returns
       (\<lparr>Storage = \<lparr>Reads = [''0100'', ''0200'', ''0300''],
                     Writes = [''0100'', ''0200'', ''0300'']\<rparr>,
         Account = \<lparr>Reads = [''01'', ''ee'', ''02'', ''ee'', ''03'', ''ee''],
                     Writes = [''da'', ''01'', ''ee'', ''02'', ''03'', ''c0'']\<rparr>\<rparr>,
        None)
   \<and> Bytes2Hex [0xda, 0x01, 0xff] = ''da01ff''
   \<and> length (Bytes2Hex [0xda, 0x01, 0xff]) = 2 * length [0xda, 0x01, 0xff :: 8 word]"
proof -
  have run: "Retrace demo ''2'' ''mainnet'' demo_db =
     Returns
       (\<lparr>Storage = \<lparr>Reads = [''0100'', ''0200'', ''0300''],
                     Writes = [''0100'', ''0200'', ''0300'']\<rparr>,
         Account = \<lparr>Reads = [''01'', ''ee'', ''02'', ''ee'', ''03'', ''ee''],
                     Writes = [''da'', ''01'', ''ee'', ''02'', ''03'', ''c0'']\<rparr>\<rparr>,
        None)"
    by (simp add: demo_simps)
  have hex: "Bytes2Hex [0xda, 0x01, 0xff] = ''da01ff''"
    by (simp add: Bytes2Hex_def hextable_def)
  from Retrace_response_hex_keys_in_order[OF run]
  have "length (Bytes2Hex [0xda, 0x01, 0xff]) = 2 * length [0xda, 0x01, 0xff :: 8 word]"
    by blast
  with run hex show ?thesis by blast
qed

subsection \<open>C9: the order of the phases\<close>



subsection \<open>C10: the errors of the accessors are dropped\<close>




end
